theory Spec2Isabelle
  imports Main
begin

section \<open>Values of a request body\<close>

text \<open>
  The handlers read the fields of \<open>req.body\<close> without checking their type, and three of
  their tests depend on the runtime type: \<open>typeof v == 'boolean'\<close>, the truthiness test
  \<open>if (v)\<close> and the validator's \<open>.not().isEmpty()\<close>. A field is therefore a scalar
  JavaScript value; \<open>JUndefined\<close> is the value of a key the body does not have.
  Arrays and nested objects are left out: no handler modelled here reads inside one.
\<close>

datatype jsval = JUndefined | JNull | JBool bool | JNum int | JStr string

fun typeof :: "jsval \<Rightarrow> string" where
  "typeof JUndefined = ''undefined''"
| "typeof JNull = ''object''"
| "typeof (JBool b) = ''boolean''"
| "typeof (JNum n) = ''number''"
| "typeof (JStr s) = ''string''"

text \<open>JavaScript's conversion to a boolean, as \<open>if (v)\<close> and \<open>!v\<close> apply it.\<close>

fun truthy :: "jsval \<Rightarrow> bool" where
  "truthy JUndefined = False"
| "truthy JNull = False"
| "truthy (JBool b) = b"
| "truthy (JNum n) = (n \<noteq> 0)"
| "truthy (JStr s) = (s \<noteq> [])"

text \<open>
  The validator's \<open>isEmpty\<close>: the value is rendered as a string (\<open>undefined\<close> and \<open>null\<close>
  as the empty string, a boolean as \<open>true\<close> or \<open>false\<close>, a number by its digits) and the
  test is that the string has length 0. The field is read from the request body.
\<close>

fun isEmpty :: "jsval \<Rightarrow> bool" where
  "isEmpty JUndefined = True"
| "isEmpty JNull = True"
| "isEmpty (JBool b) = False"
| "isEmpty (JNum n) = False"
| "isEmpty (JStr s) = (s = [])"

section \<open>Array operations of the handlers\<close>

text \<open>\<open>Array.prototype.findIndex\<close>: the index of the first element that passes, or -1.\<close>

fun findIndex :: "('a \<Rightarrow> bool) \<Rightarrow> 'a list \<Rightarrow> int" where
  "findIndex P [] = - 1"
| "findIndex P (x # xs) =
     (if P x then 0 else (let i = findIndex P xs in if i < 0 then - 1 else i + 1))"

text \<open>\<open>Array.prototype.indexOf\<close> on an array of strings (strict equality).\<close>

definition indexOf :: "string list \<Rightarrow> string \<Rightarrow> int" where
  "indexOf xs s = findIndex (\<lambda>x. x = s) xs"

text \<open>\<open>xs[i]\<close>: \<open>undefined\<close> (here \<open>None\<close>) outside the array, so also at index -1.\<close>

definition at_index :: "'a list \<Rightarrow> int \<Rightarrow> 'a option" where
  "at_index xs i = (if 0 \<le> i \<and> i < int (length xs) then Some (xs ! nat i) else None)"

text \<open>
  \<open>xs.splice(start, n)\<close>, the array that is left: a negative start counts from the
  end, a start beyond the end is the end.
\<close>

definition splice_js :: "int \<Rightarrow> nat \<Rightarrow> 'a list \<Rightarrow> 'a list" where
  "splice_js start n xs =
     (let len = int (length xs);
          s = nat (if start < 0 then max (len + start) 0 else min start len)
      in take s xs @ drop (s + n) xs)"

section \<open>The document store\<close>

text \<open>
  \<open>findById\<close> first casts the string to the store's id type. The cast accepts a string
  of 24 hexadecimal digits or a string of 12 bytes and raises a cast error of kind
  \<open>ObjectId\<close> on any other; the id's canonical form is the lower-case hexadecimal
  string, which is the key of a document in its collection.
\<close>

definition isHexDigit :: "char \<Rightarrow> bool" where
  "isHexDigit c = (c \<in> set ''0123456789abcdefABCDEF'')"

definition isObjectId :: "string \<Rightarrow> bool" where
  "isObjectId s = (length s = 12 \<or> (length s = 24 \<and> list_all isHexDigit s))"

definition hexChar :: "nat \<Rightarrow> char" where
  "hexChar n = ''0123456789abcdef'' ! (n mod 16)"

definition toLowerHex :: "char \<Rightarrow> char" where
  "toLowerHex c =
     (if c = CHR ''A'' then CHR ''a'' else if c = CHR ''B'' then CHR ''b''
      else if c = CHR ''C'' then CHR ''c'' else if c = CHR ''D'' then CHR ''d''
      else if c = CHR ''E'' then CHR ''e'' else if c = CHR ''F'' then CHR ''f'' else c)"

definition toHexString :: "string \<Rightarrow> string" where
  "toHexString s =
     (if length s = 12
      then concat (map (\<lambda>c. [hexChar (of_char c div 16), hexChar (of_char c)]) s)
      else map toLowerHex s)"

text \<open>What a handler's \<open>try\<close> block can raise, and the responses a handler sends.\<close>

datatype exn = CastError | TypeError

datatype error =
    ValidationError
  | NotFound string
  | BadRequest string
  | Unauthorized string
  | ServerError
  | NoResponse

text \<open>
  \<open>ValidationError\<close> is status 400 with the validator's list of errors, \<open>NotFound\<close> 404,
  \<open>BadRequest\<close> 400 and \<open>Unauthorized\<close> 401, each with its message, \<open>ServerError\<close> is
  status 500 with the body \<open>Server Error\<close>, and \<open>NoResponse\<close> is an exception raised
  outside every \<open>try\<close> block, which ends the handler before it answers.
\<close>

definition findById :: "(string \<rightharpoonup> 'a) \<Rightarrow> string \<Rightarrow> exn + 'a option" where
  "findById coll s = (if isObjectId s then Inr (coll (toHexString s)) else Inl CastError)"

text \<open>
  Modelled from the spec: the schemas (models/User, models/Post) are not among the
  sources. A user has a name, an email, a password hash and an avatar; a like holds
  the id of the user who liked; a comment has an identifier, a text, the author's name
  and avatar and the author's id; a post has a text, the author's name and avatar, the
  owner's id, the flag \<open>ispublic\<close> and the sequences of likes and comments. The
  identifier of a document is its key in the collection. User ids are kept in their
  canonical form: \<open>req.user.id\<close> comes from a token the server signed over the
  canonical string of a user's id, so the cast of it followed by \<open>toString\<close> gives the
  same string back.
\<close>

record user =
  user_name :: string
  user_email :: string
  user_password :: string
  user_avatar :: string

record like =
  like_user :: string

record comment =
  comment_id :: string
  comment_text :: jsval
  comment_name :: string
  comment_avatar :: string
  comment_user :: string

record post =
  post_text :: jsval
  post_name :: string
  post_avatar :: string
  post_user :: string
  ispublic :: bool
  likes :: "like list"
  comments :: "comment list"

text \<open>
  Modelled from the spec: the constructor of models/Post, which is not among the
  sources. It fills the fields the handler gives and the schema's defaults: \<open>ispublic\<close>
  is true, the likes and the comments are empty.
\<close>

definition new_Post :: "jsval \<Rightarrow> string \<Rightarrow> string \<Rightarrow> string \<Rightarrow> post" where
  "new_Post txt nm av uid =
     \<lparr>post_text = txt, post_name = nm, post_avatar = av, post_user = uid,
      ispublic = True, likes = [], comments = []\<rparr>"

text \<open>
  Modelled from the spec: the schema models/Profile is not among the sources. A profile
  is a document with the optional keys \<open>user\<close>, \<open>company\<close>, \<open>website\<close>, \<open>location\<close>,
  \<open>bio\<close>, \<open>status\<close>, \<open>githubusername\<close>, \<open>skills\<close> (a sequence of strings) and \<open>social\<close>
  (an object with the optional keys \<open>youtube\<close>, \<open>twitter\<close>, \<open>facebook\<close>, \<open>linkedin\<close>,
  \<open>instagram\<close>, \<open>devpost\<close>), and with the sequences of experience and education
  entries. \<open>None\<close> is a key the document does not have. An entry has the identifier the
  store gave it and the fields of the request that added it. The store keeps a value
  as it was submitted and accepts every document it is given: the schemas' casts and
  validators are outside the sources.
\<close>

record social =
  youtube :: "jsval option"
  twitter :: "jsval option"
  facebook :: "jsval option"
  linkedin :: "jsval option"
  instagram :: "jsval option"
  devpost :: "jsval option"

record experience =
  exp_id :: string
  exp_title :: jsval
  exp_company :: jsval
  exp_location :: jsval
  exp_from :: jsval
  exp_to :: jsval
  exp_current :: jsval
  exp_description :: jsval

record education =
  edu_id :: string
  edu_school :: jsval
  edu_degree :: jsval
  edu_fieldofstudy :: jsval
  edu_location :: jsval
  edu_from :: jsval
  edu_to :: jsval
  edu_current :: jsval
  edu_description :: jsval

record profile =
  prof_user :: "string option"
  prof_company :: "jsval option"
  prof_website :: "jsval option"
  prof_location :: "jsval option"
  prof_bio :: "jsval option"
  prof_status :: "jsval option"
  prof_githubusername :: "jsval option"
  prof_skills :: "string list option"
  prof_social :: "social option"
  prof_experience :: "experience list"
  prof_education :: "education list"

text \<open>
  The three collections. At most one profile is kept for a user (the profile route
  creates one only when \<open>findOne\<close> finds none), so the profiles are a map from the
  owner's id, and \<open>Profile.findOne({ user: id })\<close> is the lookup of \<open>id\<close>.
\<close>

record store =
  users :: "string \<rightharpoonup> user"
  posts :: "string \<rightharpoonup> post"
  profiles :: "string \<rightharpoonup> profile"

section \<open>The posts routes\<close>

definition ERR_NOTFOUND :: string where
  "ERR_NOTFOUND = ''Post not found or is private''"

record post_body =
  body_text :: jsval
  body_ispublic :: jsval


text \<open>
  POST api/posts. \<open>new_id\<close> is the identifier the store generates for the new document.
  A missing user makes \<open>user.name\<close> raise inside the \<open>try\<close> block, whose \<open>catch\<close> answers
  500 whatever the error.
\<close>

definition createPost ::
  "store \<Rightarrow> string \<Rightarrow> string \<Rightarrow> post_body \<Rightarrow> store \<times> (error + post)" where
  "createPost st new_id uid body =
     (if isEmpty (body_text body) then (st, Inl ValidationError)
      else
        (case users st uid of
           None \<Rightarrow> (st, Inl ServerError)
         | Some u \<Rightarrow>
             (let newPost = new_Post (body_text body) (user_name u) (user_avatar u) uid;
                  newPost' =
                    (if typeof (body_ispublic body) = ''boolean'' \<and> \<not> truthy (body_ispublic body)
                     then newPost\<lparr>ispublic := False\<rparr> else newPost)
              in (st\<lparr>posts := (posts st)(new_id \<mapsto> newPost')\<rparr>, Inr newPost'))))"

text \<open>
  GET api/posts/:id. When \<open>findById\<close> returns \<open>null\<close>, reading \<open>post.ispublic\<close> raises a
  type error; the \<open>catch\<close> answers 404 only for an error of kind \<open>ObjectId\<close>.
\<close>

definition getPost :: "store \<Rightarrow> string \<Rightarrow> error + post" where
  "getPost st pid =
     (case findById (posts st) pid of
        Inl CastError \<Rightarrow> Inl (NotFound ERR_NOTFOUND)
      | Inl TypeError \<Rightarrow> Inl ServerError
      | Inr None \<Rightarrow> Inl ServerError
      | Inr (Some p) \<Rightarrow>
          (if \<not> ispublic p then Inl (NotFound ERR_NOTFOUND) else Inr p))"

text \<open>DELETE api/posts/:id.\<close>

definition deletePost :: "store \<Rightarrow> string \<Rightarrow> string \<Rightarrow> store \<times> (error + string)" where
  "deletePost st pid uid =
     (case findById (posts st) pid of
        Inl CastError \<Rightarrow> (st, Inl (NotFound ''Post not found''))
      | Inl TypeError \<Rightarrow> (st, Inl ServerError)
      | Inr None \<Rightarrow> (st, Inl (NotFound ''Post not found''))
      | Inr (Some p) \<Rightarrow>
          (if post_user p \<noteq> uid
           then (st, Inl (Unauthorized ''User unauthorized to delete post''))
           else (st\<lparr>posts := (posts st)(toHexString pid := None)\<rparr>, Inr ''Post removed'')))"

text \<open>PUT api/posts/like/:id.\<close>

definition likePost :: "store \<Rightarrow> string \<Rightarrow> string \<Rightarrow> store \<times> (error + like list)" where
  "likePost st pid uid =
     (case findById (posts st) pid of
        Inl CastError \<Rightarrow> (st, Inl (NotFound ERR_NOTFOUND))
      | Inl TypeError \<Rightarrow> (st, Inl ServerError)
      | Inr None \<Rightarrow> (st, Inl ServerError)
      | Inr (Some p) \<Rightarrow>
          (if \<not> ispublic p then (st, Inl (NotFound ERR_NOTFOUND))
           else if length (filter (\<lambda>l. like_user l = uid) (likes p)) > 0
           then (st, Inl (BadRequest ''Post already liked''))
           else
             (let p' = p\<lparr>likes := \<lparr>like_user = uid\<rparr> # likes p\<rparr>
              in (st\<lparr>posts := (posts st)(toHexString pid \<mapsto> p')\<rparr>, Inr (likes p')))))"

text \<open>PUT api/posts/unlike/:id.\<close>

definition unlikePost :: "store \<Rightarrow> string \<Rightarrow> string \<Rightarrow> store \<times> (error + like list)" where
  "unlikePost st pid uid =
     (case findById (posts st) pid of
        Inl CastError \<Rightarrow> (st, Inl (NotFound ERR_NOTFOUND))
      | Inl TypeError \<Rightarrow> (st, Inl ServerError)
      | Inr None \<Rightarrow> (st, Inl ServerError)
      | Inr (Some p) \<Rightarrow>
          (if \<not> ispublic p then (st, Inl (NotFound ERR_NOTFOUND))
           else if length (filter (\<lambda>l. like_user l = uid) (likes p)) = 0
           then (st, Inl (BadRequest ''Post was never liked''))
           else
             (let removeIndex = indexOf (map like_user (likes p)) uid
              in if removeIndex \<ge> 0
                 then (let p' = p\<lparr>likes := splice_js removeIndex 1 (likes p)\<rparr>
                       in (st\<lparr>posts := (posts st)(toHexString pid \<mapsto> p')\<rparr>, Inr (likes p')))
                 else (st, Inr (likes p)))))"

text \<open>DELETE api/posts/comment/:id/:comment_id.\<close>

definition deleteComment ::
  "store \<Rightarrow> string \<Rightarrow> string \<Rightarrow> string \<Rightarrow> store \<times> (error + string)" where
  "deleteComment st pid cid uid =
     (case findById (posts st) pid of
        Inl CastError \<Rightarrow> (st, Inl (NotFound ERR_NOTFOUND))
      | Inl TypeError \<Rightarrow> (st, Inl ServerError)
      | Inr None \<Rightarrow> (st, Inl ServerError)
      | Inr (Some p) \<Rightarrow>
          (let removeIndex = findIndex (\<lambda>c. comment_id c = cid) (comments p)
           in case at_index (comments p) removeIndex of
                None \<Rightarrow> (st, Inl (NotFound ''Comment does not exist''))
              | Some c \<Rightarrow>
                  (if comment_user c \<noteq> uid then (st, Inl (Unauthorized ''User not authorized''))
                   else if removeIndex \<ge> 0
                   then (let p' = p\<lparr>comments := splice_js removeIndex 1 (comments p)\<rparr>
                         in (st\<lparr>posts := (posts st)(toHexString pid \<mapsto> p')\<rparr>,
                             Inr ''Comment deleted''))
                   else (st, Inr ''Comment deleted''))))"

section \<open>The profile routes\<close>

text \<open>
  \<open>s.split(',')\<close>: the pieces between the commas, one more than there are commas.
\<close>

fun split_comma :: "string \<Rightarrow> string list" where
  "split_comma [] = [[]]"
| "split_comma (c # cs) =
     (if c = CHR '','' then [] # split_comma cs
      else (case split_comma cs of [] \<Rightarrow> [[c]] | w # ws \<Rightarrow> (c # w) # ws))"

text \<open>
  \<open>s.trim()\<close>: the string without the white space and the line terminators at its two
  ends. A \<open>char\<close> is a byte, and a string is held as the bytes of its UTF-8 encoding, so
  a character beyond ASCII is a sequence of two or three bytes. The characters that
  \<open>trim\<close> strips are U+0009 to U+000D, U+0020, U+00A0, U+1680, U+2000 to U+200A, U+2028,
  U+2029, U+202F, U+205F, U+3000 and U+FEFF. No byte of a comma or of an ASCII white
  space occurs inside the encoding of another character, and the first byte of an
  encoding is never the byte of a later position, so the sequences are looked for at
  the two ends of the byte string.
\<close>

definition whiteSpace :: "string list" where
  "whiteSpace =
     [[CHR 0x09], [CHR 0x0A], [CHR 0x0B], [CHR 0x0C], [CHR 0x0D], [CHR 0x20],
      [CHR 0xC2, CHR 0xA0],
      [CHR 0xE1, CHR 0x9A, CHR 0x80],
      [CHR 0xE2, CHR 0x80, CHR 0x80], [CHR 0xE2, CHR 0x80, CHR 0x81],
      [CHR 0xE2, CHR 0x80, CHR 0x82], [CHR 0xE2, CHR 0x80, CHR 0x83],
      [CHR 0xE2, CHR 0x80, CHR 0x84], [CHR 0xE2, CHR 0x80, CHR 0x85],
      [CHR 0xE2, CHR 0x80, CHR 0x86], [CHR 0xE2, CHR 0x80, CHR 0x87],
      [CHR 0xE2, CHR 0x80, CHR 0x88], [CHR 0xE2, CHR 0x80, CHR 0x89],
      [CHR 0xE2, CHR 0x80, CHR 0x8A],
      [CHR 0xE2, CHR 0x80, CHR 0xA8], [CHR 0xE2, CHR 0x80, CHR 0xA9],
      [CHR 0xE2, CHR 0x80, CHR 0xAF],
      [CHR 0xE2, CHR 0x81, CHR 0x9F],
      [CHR 0xE3, CHR 0x80, CHR 0x80],
      [CHR 0xEF, CHR 0xBB, CHR 0xBF]]"

text \<open>
  The string without every leading occurrence of one of the sequences \<open>ws\<close>: while the
  string starts with one of them, that one is dropped.
\<close>

function dropLeading :: "string list \<Rightarrow> string \<Rightarrow> string" where
  "dropLeading ws s =
     (case List.find (\<lambda>w. w \<noteq> [] \<and> take (length w) s = w) ws of
        None \<Rightarrow> s
      | Some w \<Rightarrow> dropLeading ws (drop (length w) s))"
  by pat_completeness auto
termination
proof (relation "measure (\<lambda>(ws, s). length s)")
  show "wf (measure (\<lambda>(ws, s). length s))"
    by simp
next
  fix ws :: "string list" and s w :: string
  assume "List.find (\<lambda>w. w \<noteq> [] \<and> take (length w) s = w) ws = Some w"
  then have "w \<noteq> []" and "take (length w) s = w"
    by (auto simp: find_Some_iff)
  then have "w \<noteq> []" and "length (take (length w) s) = length w"
    by simp_all
  then have "length s - length w < length s"
    by (cases w) (auto simp: min_def split: if_splits)
  then show "((ws, drop (length w) s), (ws, s)) \<in> measure (\<lambda>(ws, s). length s)"
    by simp
qed

declare dropLeading.simps [simp del]

definition trim :: "string \<Rightarrow> string" where
  "trim s = rev (dropLeading (map rev whiteSpace) (rev (dropLeading whiteSpace s)))"

record profile_body =
  body_company :: jsval
  body_instagram :: jsval
  body_location :: jsval
  body_bio :: jsval
  body_status :: jsval
  body_githubusername :: jsval
  body_skills :: jsval
  body_youtube :: jsval
  body_facebook :: jsval
  body_twitter :: jsval
  body_website :: jsval
  body_linkedin :: jsval
  body_devpost :: jsval

text \<open>
  The object \<open>profileFields\<close>: a key is \<open>None\<close> until an assignment sets it.
  \<open>if (v) obj.k = v\<close> sets the key only for a truthy value.
\<close>

record profileFields =
  pf_user :: "string option"
  pf_company :: "jsval option"
  pf_website :: "jsval option"
  pf_location :: "jsval option"
  pf_bio :: "jsval option"
  pf_status :: "jsval option"
  pf_githubusername :: "jsval option"
  pf_skills :: "string list option"
  pf_social :: "social option"

definition when_truthy :: "jsval \<Rightarrow> jsval option" where
  "when_truthy v = (if truthy v then Some v else None)"

text \<open>
  \<open>if (skills) profileFields.skills = skills.split(',').map(skill => skill.trim())\<close>:
  a truthy value that is not a string has no \<open>split\<close>, and the call raises.
\<close>

definition skills_field :: "jsval \<Rightarrow> exn + string list option" where
  "skills_field v =
     (if truthy v
      then (case v of JStr s \<Rightarrow> Inr (Some (map trim (split_comma s))) | _ \<Rightarrow> Inl TypeError)
      else Inr None)"

definition social_fields :: "profile_body \<Rightarrow> social" where
  "social_fields body =
     \<lparr>youtube = when_truthy (body_youtube body),
      twitter = when_truthy (body_twitter body),
      facebook = when_truthy (body_facebook body),
      linkedin = when_truthy (body_linkedin body),
      instagram = when_truthy (body_instagram body),
      devpost = when_truthy (body_devpost body)\<rparr>"

text \<open>
  The store's update \<open>{ $set: fields }\<close>: every key of \<open>fields\<close> gets the value \<open>fields\<close>
  has for it, and a key \<open>fields\<close> does not have keeps the document's value. The keys are
  the top-level keys of \<open>fields\<close>: the value of the key \<open>social\<close> is the object itself.
\<close>

definition set_key :: "'a option \<Rightarrow> 'a option \<Rightarrow> 'a option" where
  "set_key new old = (case new of None \<Rightarrow> old | Some v \<Rightarrow> Some v)"

definition set_fields :: "profile \<Rightarrow> profileFields \<Rightarrow> profile" where
  "set_fields p f =
     p\<lparr>prof_user := set_key (pf_user f) (prof_user p),
       prof_company := set_key (pf_company f) (prof_company p),
       prof_website := set_key (pf_website f) (prof_website p),
       prof_location := set_key (pf_location f) (prof_location p),
       prof_bio := set_key (pf_bio f) (prof_bio p),
       prof_status := set_key (pf_status f) (prof_status p),
       prof_githubusername := set_key (pf_githubusername f) (prof_githubusername p),
       prof_skills := set_key (pf_skills f) (prof_skills p),
       prof_social := set_key (pf_social f) (prof_social p)\<rparr>"

text \<open>
  Modelled from the spec: the constructor of models/Profile, which is not among the
  sources. The new profile has exactly the keys of the fields given, and no experience
  or education entry.
\<close>

definition new_Profile :: "profileFields \<Rightarrow> profile" where
  "new_Profile f =
     \<lparr>prof_user = pf_user f, prof_company = pf_company f, prof_website = pf_website f,
      prof_location = pf_location f, prof_bio = pf_bio f, prof_status = pf_status f,
      prof_githubusername = pf_githubusername f, prof_skills = pf_skills f,
      prof_social = pf_social f, prof_experience = [], prof_education = []\<rparr>"

text \<open>
  POST api/profile. The fields are built before the \<open>try\<close> block, so the type error of
  \<open>skills.split\<close> is caught by nothing.
\<close>

definition upsertProfile :: "store \<Rightarrow> string \<Rightarrow> profile_body \<Rightarrow> store \<times> (error + profile)" where
  "upsertProfile st uid body =
     (if isEmpty (body_status body) \<or> isEmpty (body_skills body) then (st, Inl ValidationError)
      else
        (case skills_field (body_skills body) of
           Inl e \<Rightarrow> (st, Inl NoResponse)
         | Inr sk \<Rightarrow>
             (let profileFields =
                    \<lparr>pf_user = Some uid,
                     pf_company = when_truthy (body_company body),
                     pf_website = when_truthy (body_website body),
                     pf_location = when_truthy (body_location body),
                     pf_bio = when_truthy (body_bio body),
                     pf_status = when_truthy (body_status body),
                     pf_githubusername = when_truthy (body_githubusername body),
                     pf_skills = sk,
                     pf_social = Some (social_fields body)\<rparr>
              in case profiles st uid of
                   Some p \<Rightarrow>
                     (let p' = set_fields p profileFields
                      in (st\<lparr>profiles := (profiles st)(uid \<mapsto> p')\<rparr>, Inr p'))
                 | None \<Rightarrow>
                     (let p' = new_Profile profileFields
                      in (st\<lparr>profiles := (profiles st)(uid \<mapsto> p')\<rparr>, Inr p')))))"

record experience_body =
  body_exp_title :: jsval
  body_exp_company :: jsval
  body_exp_location :: jsval
  body_exp_from :: jsval
  body_exp_to :: jsval
  body_exp_current :: jsval
  body_exp_description :: jsval

text \<open>
  PUT api/profile/experience. \<open>new_id\<close> is the identifier the store gives the new entry.
  When \<open>findOne\<close> returns \<open>null\<close>, \<open>profile.experience\<close> raises inside the \<open>try\<close> block and
  the \<open>catch\<close> answers 500.
\<close>

definition addExperience ::
  "store \<Rightarrow> string \<Rightarrow> string \<Rightarrow> experience_body \<Rightarrow> store \<times> (error + profile)" where
  "addExperience st new_id uid body =
     (if isEmpty (body_exp_title body) \<or> isEmpty (body_exp_company body)
         \<or> isEmpty (body_exp_from body)
      then (st, Inl ValidationError)
      else
        (let newExp =
               \<lparr>exp_id = new_id, exp_title = body_exp_title body,
                exp_company = body_exp_company body, exp_location = body_exp_location body,
                exp_from = body_exp_from body, exp_to = body_exp_to body,
                exp_current = body_exp_current body,
                exp_description = body_exp_description body\<rparr>
         in case profiles st uid of
              None \<Rightarrow> (st, Inl ServerError)
            | Some p \<Rightarrow>
                (let p' = p\<lparr>prof_experience := newExp # prof_experience p\<rparr>
                 in (st\<lparr>profiles := (profiles st)(uid \<mapsto> p')\<rparr>, Inr p'))))"

text \<open>DELETE api/profile/experience/:exp_id.\<close>

definition removeExperience :: "store \<Rightarrow> string \<Rightarrow> string \<Rightarrow> store \<times> (error + profile)" where
  "removeExperience st uid eid =
     (case profiles st uid of
        None \<Rightarrow> (st, Inl ServerError)
      | Some p \<Rightarrow>
          (let removeIndex = indexOf (map exp_id (prof_experience p)) eid
           in if removeIndex \<ge> 0
              then (let p' = p\<lparr>prof_experience := splice_js removeIndex 1 (prof_experience p)\<rparr>
                    in (st\<lparr>profiles := (profiles st)(uid \<mapsto> p')\<rparr>, Inr p'))
              else (st, Inr p)))"

text \<open>DELETE api/profile/education/:edu_id.\<close>

definition removeEducation :: "store \<Rightarrow> string \<Rightarrow> string \<Rightarrow> store \<times> (error + profile)" where
  "removeEducation st uid eid =
     (case profiles st uid of
        None \<Rightarrow> (st, Inl ServerError)
      | Some p \<Rightarrow>
          (let removeIndex = indexOf (map edu_id (prof_education p)) eid
           in if removeIndex \<ge> 0
              then (let p' = p\<lparr>prof_education := splice_js removeIndex 1 (prof_education p)\<rparr>
                    in (st\<lparr>profiles := (profiles st)(uid \<mapsto> p')\<rparr>, Inr p'))
              else (st, Inr p)))"

section \<open>Example documents\<close>

text \<open>A store with one user and one public post, liked by another user and commented twice.\<close>

text \<open>
  Identifiers of users (\<open>ex_u1\<close> to \<open>ex_u3\<close>), of comments, of experience entries and of
  an education entry, in the store's format.
\<close>

abbreviation ex_u1 :: string where
  "ex_u1 \<equiv> ''5d7a514b5d2c12c7449be0a1''"

abbreviation ex_u2 :: string where
  "ex_u2 \<equiv> ''5d7a514b5d2c12c7449be0a2''"

abbreviation ex_u3 :: string where
  "ex_u3 \<equiv> ''5d7a514b5d2c12c7449be0a3''"

abbreviation ex_c1 :: string where
  "ex_c1 \<equiv> ''5d7a514b5d2c12c7449be0c1''"

abbreviation ex_c2 :: string where
  "ex_c2 \<equiv> ''5d7a514b5d2c12c7449be0c2''"

abbreviation ex_c9 :: string where
  "ex_c9 \<equiv> ''5d7a514b5d2c12c7449be0c9''"

abbreviation ex_e1 :: string where
  "ex_e1 \<equiv> ''5d7a514b5d2c12c7449be0e1''"

abbreviation ex_e7 :: string where
  "ex_e7 \<equiv> ''5d7a514b5d2c12c7449be0e7''"

abbreviation ex_d1 :: string where
  "ex_d1 \<equiv> ''5d7a514b5d2c12c7449be0d1''"

definition ex_pid :: string where
  "ex_pid = ''5d7a514b5d2c12c7449be042''"

definition ex_user :: user where
  "ex_user = \<lparr>user_name = ''Ada'', user_email = ''ada@example.org'',
     user_password = ''x'', user_avatar = ''a.png''\<rparr>"

definition ex_comment1 :: comment where
  "ex_comment1 = \<lparr>comment_id = ex_c1, comment_text = JStr ''first'', comment_name = ''Bob'',
     comment_avatar = ''b.png'', comment_user = ex_u2\<rparr>"

definition ex_comment2 :: comment where
  "ex_comment2 = \<lparr>comment_id = ex_c2, comment_text = JStr ''second'', comment_name = ''Ada'',
     comment_avatar = ''a.png'', comment_user = ex_u1\<rparr>"

definition ex_post :: post where
  "ex_post = \<lparr>post_text = JStr ''hello'', post_name = ''Ada'', post_avatar = ''a.png'',
     post_user = ex_u1, ispublic = True, likes = [\<lparr>like_user = ex_u2\<rparr>],
     comments = [ex_comment1, ex_comment2]\<rparr>"

definition ex_store :: store where
  "ex_store = \<lparr>users = [ex_u1 \<mapsto> ex_user], posts = [ex_pid \<mapsto> ex_post],
     profiles = Map.empty\<rparr>"

text \<open>
  A store where the user has a profile with a company, a location, a YouTube link, one
  experience entry and one education entry, and three request bodies for the profile
  route: one that gives a Twitter link and a website, one that gives a bio and whose
  skills have a no-break space (U+00A0) after the first and a tab after the second, and
  one that gives a Twitter link and sends the company and the YouTube link as empty
  strings.
\<close>

definition ex_experience :: experience where
  "ex_experience = \<lparr>exp_id = ex_e1, exp_title = JStr ''Engineer'', exp_company = JStr ''Acme'',
     exp_location = JUndefined, exp_from = JStr ''2018-01-01'', exp_to = JUndefined,
     exp_current = JBool True, exp_description = JUndefined\<rparr>"

definition ex_education :: education where
  "ex_education = \<lparr>edu_id = ex_d1, edu_school = JStr ''MIT'', edu_degree = JStr ''BSc'',
     edu_fieldofstudy = JStr ''CS'', edu_location = JUndefined, edu_from = JStr ''2014-09-01'',
     edu_to = JStr ''2017-06-30'', edu_current = JBool False, edu_description = JUndefined\<rparr>"

definition ex_profile :: profile where
  "ex_profile = \<lparr>prof_user = Some ex_u1, prof_company = Some (JStr ''Acme''),
     prof_website = None, prof_location = Some (JStr ''Paris''), prof_bio = None,
     prof_status = Some (JStr ''Developer''), prof_githubusername = None,
     prof_skills = Some [''HTML'', ''CSS''],
     prof_social = Some \<lparr>youtube = Some (JStr ''yt.example/ada''), twitter = None,
       facebook = None, linkedin = None, instagram = None, devpost = None\<rparr>,
     prof_experience = [ex_experience], prof_education = [ex_education]\<rparr>"

definition ex_profile_store :: store where
  "ex_profile_store = \<lparr>users = [ex_u1 \<mapsto> ex_user], posts = Map.empty,
     profiles = [ex_u1 \<mapsto> ex_profile]\<rparr>"

definition ex_body :: profile_body where
  "ex_body = \<lparr>body_company = JUndefined, body_instagram = JUndefined,
     body_location = JUndefined, body_bio = JUndefined, body_status = JStr ''Senior'',
     body_githubusername = JUndefined, body_skills = JStr ''JS, SQL'',
     body_youtube = JUndefined, body_facebook = JUndefined, body_twitter = JUndefined,
     body_website = JUndefined, body_linkedin = JUndefined, body_devpost = JUndefined\<rparr>"

definition ex_body_twitter :: profile_body where
  "ex_body_twitter = ex_body\<lparr>body_twitter := JStr ''tw.example/ada'',
     body_website := JStr ''ada.example''\<rparr>"

definition ex_body_bio :: profile_body where
  "ex_body_bio = ex_body\<lparr>body_bio := JStr ''Hello'', body_status := JStr ''Lead'',
     body_skills := JStr (''JS'' @ [CHR 0xC2, CHR 0xA0] @ '', SQL'' @ [CHR 0x09])\<rparr>"

definition ex_body_empty :: profile_body where
  "ex_body_empty = ex_body\<lparr>body_company := JStr [], body_youtube := JStr [],
     body_twitter := JStr ''tw.example/ada''\<rparr>"

definition ex_experience_body :: experience_body where
  "ex_experience_body = \<lparr>body_exp_title = JStr ''Engineer'', body_exp_company = JStr ''Acme'',
     body_exp_location = JUndefined, body_exp_from = JStr ''2018-01-01'',
     body_exp_to = JUndefined, body_exp_current = JBool True,
     body_exp_description = JUndefined\<rparr>"

section \<open>Array and store lemmas\<close>

lemma findIndex_none: "\<forall>x\<in>set xs. \<not> P x \<Longrightarrow> findIndex P xs = - 1"
  by (induction xs) auto

lemma findIndex_first:
  "P c \<Longrightarrow> \<forall>x\<in>set pre. \<not> P x \<Longrightarrow> findIndex P (pre @ c # suf) = int (length pre)"
  by (induction pre) (auto simp: Let_def)

lemma at_index_minus1: "at_index xs (- 1) = None"
  by (simp add: at_index_def)

lemma at_index_middle: "at_index (pre @ c # suf) (int (length pre)) = Some c"
  by (simp add: at_index_def)

lemma splice_middle: "splice_js (int (length pre)) (Suc 0) (pre @ c # suf) = pre @ suf"
  by (simp add: splice_js_def Let_def)

lemma findById_Some:
  "findById coll s = Inr (Some x) \<longleftrightarrow> isObjectId s \<and> coll (toHexString s) = Some x"
  by (simp add: findById_def)

lemma store_posts_triv: "posts st k = Some p \<Longrightarrow> st\<lparr>posts := (posts st)(k \<mapsto> p)\<rparr> = st"
  by (simp add: map_upd_triv)

lemma no_like_filter:
  "uid \<notin> set (map like_user ls) \<Longrightarrow> filter (\<lambda>l. like_user l = uid) ls = []"
  by (induction ls) auto

lemma some_like_filter:
  "uid \<in> set (map like_user ls) \<Longrightarrow> filter (\<lambda>l. like_user l = uid) ls \<noteq> []"
  by (induction ls) auto

lemma ex_pid_ok: "isObjectId ex_pid" "toHexString ex_pid = ex_pid"
  by (simp_all add: ex_pid_def isObjectId_def isHexDigit_def toHexString_def toLowerHex_def)

lemma ex_findById: "findById (posts ex_store) ex_pid = Inr (Some ex_post)"
  by (simp add: findById_def ex_pid_ok ex_store_def)

section \<open>Reading a post\<close>

lemma getPost_result:
  "getPost st pid =
     (if \<not> isObjectId pid then Inl (NotFound ERR_NOTFOUND)
      else case posts st (toHexString pid) of
             None \<Rightarrow> Inl ServerError
           | Some p \<Rightarrow> if ispublic p then Inr p else Inl (NotFound ERR_NOTFOUND))"
  by (simp add: getPost_def findById_def split: option.splits)

text \<open>
  C1 (the code differs): an id in the store's format that resolves to no post is not
  answered with \<open>NotFound\<close>. \<open>findById\<close> returns \<open>null\<close>, \<open>post.ispublic\<close> raises, and the
  \<open>catch\<close> answers 500 \<open>Server Error\<close>: here on the store with no post at all.
\<close>

theorem getPost_unknown_id_server_error:
  "isObjectId ''5d7a514b5d2c12c7449be042'' \<and>
   posts \<lparr>users = Map.empty, posts = Map.empty, profiles = Map.empty\<rparr>
     (toHexString ''5d7a514b5d2c12c7449be042'') = None \<and>
   getPost \<lparr>users = Map.empty, posts = Map.empty, profiles = Map.empty\<rparr>
     ''5d7a514b5d2c12c7449be042'' = Inl ServerError"
  by (simp add: getPost_def findById_def isObjectId_def isHexDigit_def)

section \<open>Creating a post\<close>

text \<open>
  C2: a request with a non-empty text, by a user the store has, creates a post, and the
  post's \<open>ispublic\<close> is true unless the submitted value is the boolean \<open>false\<close>: the test is
  on the runtime type, so the string \<open>false\<close>, the number 0 and an absent value all
  leave it true.
\<close>

theorem createPost_ispublic:
  assumes "\<not> isEmpty (body_text body)" and "users st uid = Some u"
  shows "\<exists>p. createPost st new_id uid body = (st\<lparr>posts := (posts st)(new_id \<mapsto> p)\<rparr>, Inr p)
             \<and> (ispublic p \<longleftrightarrow> body_ispublic body \<noteq> JBool False)"
proof (cases "body_ispublic body")
  case (JBool b)
  with assms show ?thesis
    by (cases b) (simp_all add: createPost_def new_Post_def Let_def)
qed (use assms in \<open>simp_all add: createPost_def new_Post_def Let_def\<close>)

theorem createPost_ispublic_witness:
  "(\<exists>p. snd (createPost ex_store ''5d7a514b5d2c12c7449be043'' ex_u1
            \<lparr>body_text = JStr ''hi'', body_ispublic = JStr ''false''\<rparr>) = Inr p \<and> ispublic p)
   \<and> (\<exists>p. snd (createPost ex_store ''5d7a514b5d2c12c7449be043'' ex_u1
            \<lparr>body_text = JStr ''hi'', body_ispublic = JNum 0\<rparr>) = Inr p \<and> ispublic p)
   \<and> (\<exists>p. snd (createPost ex_store ''5d7a514b5d2c12c7449be043'' ex_u1
            \<lparr>body_text = JStr ''hi'', body_ispublic = JUndefined\<rparr>) = Inr p \<and> ispublic p)
   \<and> (\<exists>p. snd (createPost ex_store ''5d7a514b5d2c12c7449be043'' ex_u1
            \<lparr>body_text = JStr ''hi'', body_ispublic = JBool False\<rparr>) = Inr p \<and> \<not> ispublic p)"
proof -
  have u: "users ex_store ex_u1 = Some ex_user"
    by (simp add: ex_store_def)
  have t: "\<not> isEmpty (body_text \<lparr>body_text = JStr ''hi'', body_ispublic = v\<rparr>)" for v
    by simp
  show ?thesis
    using createPost_ispublic [OF t [of "JStr ''false''"] u, of "''5d7a514b5d2c12c7449be043''"]
      createPost_ispublic [OF t [of "JNum 0"] u, of "''5d7a514b5d2c12c7449be043''"]
      createPost_ispublic [OF t [of JUndefined] u, of "''5d7a514b5d2c12c7449be043''"]
      createPost_ispublic [OF t [of "JBool False"] u, of "''5d7a514b5d2c12c7449be043''"]
    by auto
qed

section \<open>Likes\<close>

text \<open>
  C4: on a public post, a like by a user who is not in the like sequence puts the user
  at the head, and the unlike that follows removes that first entry: the like sequence
  is the one before the like, in the same order, and so is the whole store.
\<close>

theorem like_then_unlike:
  assumes "findById (posts st) pid = Inr (Some p)" and "ispublic p"
    and "uid \<notin> set (map like_user (likes p))"
  shows "likePost st pid uid =
           (st\<lparr>posts := (posts st)(toHexString pid \<mapsto> p\<lparr>likes := \<lparr>like_user = uid\<rparr> # likes p\<rparr>)\<rparr>,
            Inr (\<lparr>like_user = uid\<rparr> # likes p))
         \<and> unlikePost (fst (likePost st pid uid)) pid uid = (st, Inr (likes p))"
proof -
  let ?p' = "p\<lparr>likes := \<lparr>like_user = uid\<rparr> # likes p\<rparr>"
  let ?st' = "st\<lparr>posts := (posts st)(toHexString pid \<mapsto> ?p')\<rparr>"
  from assms(1) have ok: "isObjectId pid" and stored: "posts st (toHexString pid) = Some p"
    by (simp_all add: findById_Some)
  have like: "likePost st pid uid = (?st', Inr (\<lparr>like_user = uid\<rparr> # likes p))"
    using assms by (simp add: likePost_def no_like_filter Let_def)
  have found: "findById (posts ?st') pid = Inr (Some ?p')"
    using ok by (simp add: findById_def)
  have restored: "?st'\<lparr>posts := (posts ?st')(toHexString pid \<mapsto> ?p'\<lparr>likes := likes p\<rparr>)\<rparr> = st"
    using stored by (simp add: map_upd_triv)
  have "unlikePost ?st' pid uid = (st, Inr (likes p))"
    using found assms(2) restored
    by (simp add: unlikePost_def indexOf_def splice_js_def Let_def)
  with like show ?thesis by simp
qed

theorem like_then_unlike_witness:
  "likePost ex_store ex_pid ex_u3 =
     (ex_store\<lparr>posts := (posts ex_store)
        (ex_pid \<mapsto> ex_post\<lparr>likes := [\<lparr>like_user = ex_u3\<rparr>, \<lparr>like_user = ex_u2\<rparr>]\<rparr>)\<rparr>,
      Inr [\<lparr>like_user = ex_u3\<rparr>, \<lparr>like_user = ex_u2\<rparr>])
   \<and> unlikePost (fst (likePost ex_store ex_pid ex_u3)) ex_pid ex_u3
       = (ex_store, Inr [\<lparr>like_user = ex_u2\<rparr>])"
proof -
  have pub: "ispublic ex_post" and fresh: "ex_u3 \<notin> set (map like_user (likes ex_post))"
    by (simp_all add: ex_post_def)
  have ls: "likes ex_post = [\<lparr>like_user = ex_u2\<rparr>]"
    by (simp add: ex_post_def)
  note both = like_then_unlike [OF ex_findById pub fresh]
  have a: "likePost ex_store ex_pid ex_u3 =
      (ex_store\<lparr>posts := (posts ex_store)
         (ex_pid \<mapsto> ex_post\<lparr>likes := [\<lparr>like_user = ex_u3\<rparr>, \<lparr>like_user = ex_u2\<rparr>]\<rparr>)\<rparr>,
       Inr [\<lparr>like_user = ex_u3\<rparr>, \<lparr>like_user = ex_u2\<rparr>])"
    using both [THEN conjunct1] by (simp add: ex_pid_ok ls)
  have b: "unlikePost (fst (likePost ex_store ex_pid ex_u3)) ex_pid ex_u3
       = (ex_store, Inr [\<lparr>like_user = ex_u2\<rparr>])"
    using both [THEN conjunct2] by (simp only: ls)
  show ?thesis
    using a b by blast
qed

text \<open>
  C5: on a public post, a like by a user already in the like sequence is answered
  \<open>BadRequest\<close> (Post already liked), an unlike by a user who is not in it \<open>BadRequest\<close>
  (Post was never liked), and neither writes to the store.
\<close>

theorem like_twice_unlike_never:
  assumes "findById (posts st) pid = Inr (Some p)" and "ispublic p"
  shows "(uid \<in> set (map like_user (likes p)) \<longrightarrow>
            likePost st pid uid = (st, Inl (BadRequest ''Post already liked'')))
       \<and> (uid \<notin> set (map like_user (likes p)) \<longrightarrow>
            unlikePost st pid uid = (st, Inl (BadRequest ''Post was never liked'')))"
proof (intro conjI impI)
  assume "uid \<in> set (map like_user (likes p))"
  then have "filter (\<lambda>l. like_user l = uid) (likes p) \<noteq> []"
    by (rule some_like_filter)
  with assms show "likePost st pid uid = (st, Inl (BadRequest ''Post already liked''))"
    by (simp add: likePost_def)
next
  assume "uid \<notin> set (map like_user (likes p))"
  then have "filter (\<lambda>l. like_user l = uid) (likes p) = []"
    by (rule no_like_filter)
  with assms show "unlikePost st pid uid = (st, Inl (BadRequest ''Post was never liked''))"
    by (simp add: unlikePost_def)
qed

theorem like_twice_unlike_never_witness:
  "likePost ex_store ex_pid ex_u2 = (ex_store, Inl (BadRequest ''Post already liked''))
   \<and> unlikePost ex_store ex_pid ex_u3 = (ex_store, Inl (BadRequest ''Post was never liked''))"
proof -
  have pub: "ispublic ex_post" and fresh: "ex_u3 \<notin> set (map like_user (likes ex_post))"
    and liked: "ex_u2 \<in> set (map like_user (likes ex_post))"
    by (simp_all add: ex_post_def)
  show ?thesis
    using like_twice_unlike_never [OF ex_findById pub, of ex_u2]
      like_twice_unlike_never [OF ex_findById pub, of ex_u3] fresh liked
    by simp
qed

section \<open>Deleting a post\<close>

text \<open>
  C6: when the id resolves to no post (it is not in the store's format, or no post has
  it) the answer is \<open>NotFound\<close> (Post not found); when the post's owner is not the
  requester the answer is \<open>Unauthorized\<close> and the store is unchanged; otherwise the post
  is removed. The flag \<open>ispublic\<close> is never read: the answer is the same whatever its
  value, so the owner deletes a private post as a public one.
\<close>

theorem deletePost_cases:
  "(findById (posts st) pid = Inl CastError \<or> findById (posts st) pid = Inr None \<longrightarrow>
      deletePost st pid uid = (st, Inl (NotFound ''Post not found'')))
   \<and> (\<forall>p. findById (posts st) pid = Inr (Some p) \<and> post_user p \<noteq> uid \<longrightarrow>
      deletePost st pid uid = (st, Inl (Unauthorized ''User unauthorized to delete post'')))
   \<and> (\<forall>p. findById (posts st) pid = Inr (Some p) \<and> post_user p = uid \<longrightarrow>
      deletePost st pid uid =
        (st\<lparr>posts := (posts st)(toHexString pid := None)\<rparr>, Inr ''Post removed'')
      \<and> findById (posts (fst (deletePost st pid uid))) pid = Inr None)
   \<and> (\<forall>p b. isObjectId pid \<longrightarrow>
      snd (deletePost (st\<lparr>posts := (posts st)(toHexString pid \<mapsto> p\<lparr>ispublic := b\<rparr>)\<rparr>) pid uid)
      = snd (deletePost (st\<lparr>posts := (posts st)(toHexString pid \<mapsto> p)\<rparr>) pid uid))"
proof (intro conjI allI impI)
  assume "findById (posts st) pid = Inl CastError \<or> findById (posts st) pid = Inr None"
  then show "deletePost st pid uid = (st, Inl (NotFound ''Post not found''))"
    by (auto simp: deletePost_def)
next
  fix p
  assume "findById (posts st) pid = Inr (Some p) \<and> post_user p \<noteq> uid"
  then show "deletePost st pid uid = (st, Inl (Unauthorized ''User unauthorized to delete post''))"
    by (simp add: deletePost_def)
next
  fix p
  assume own: "findById (posts st) pid = Inr (Some p) \<and> post_user p = uid"
  then show del: "deletePost st pid uid =
      (st\<lparr>posts := (posts st)(toHexString pid := None)\<rparr>, Inr ''Post removed'')"
    by (simp add: deletePost_def)
  from own have "isObjectId pid"
    by (simp add: findById_Some)
  then show "findById (posts (fst (deletePost st pid uid))) pid = Inr None"
    by (simp add: del findById_def)
next
  fix p b
  assume "isObjectId pid"
  then show "snd (deletePost (st\<lparr>posts := (posts st)(toHexString pid \<mapsto> p\<lparr>ispublic := b\<rparr>)\<rparr>) pid uid)
      = snd (deletePost (st\<lparr>posts := (posts st)(toHexString pid \<mapsto> p)\<rparr>) pid uid)"
    by (simp add: deletePost_def findById_def)
qed

theorem deletePost_cases_witness:
  "deletePost ex_store ''nonsense'' ex_u1 = (ex_store, Inl (NotFound ''Post not found''))
   \<and> deletePost ex_store ''5d7a514b5d2c12c7449be0ff'' ex_u1
       = (ex_store, Inl (NotFound ''Post not found''))
   \<and> deletePost ex_store ex_pid ex_u2
       = (ex_store, Inl (Unauthorized ''User unauthorized to delete post''))
   \<and> deletePost ex_store ex_pid ex_u1
       = (ex_store\<lparr>posts := Map.empty\<rparr>, Inr ''Post removed'')
   \<and> snd (deletePost (ex_store\<lparr>posts := [ex_pid \<mapsto> ex_post\<lparr>ispublic := False\<rparr>]\<rparr>) ex_pid ex_u1)
       = Inr ''Post removed''"
proof -
  have bad: "findById (posts ex_store) ''nonsense'' = Inl CastError"
    by (simp add: findById_def isObjectId_def)
  have unknown: "findById (posts ex_store) ''5d7a514b5d2c12c7449be0ff'' = Inr None"
    by (simp add: findById_def isObjectId_def isHexDigit_def toHexString_def toLowerHex_def
        ex_store_def ex_pid_def)
  have owner: "post_user ex_post = ex_u1" "post_user ex_post \<noteq> ex_u2"
    by (simp_all add: ex_post_def)
  have upd: "ex_store\<lparr>posts := (posts ex_store)(toHexString ex_pid := None)\<rparr>
      = ex_store\<lparr>posts := Map.empty\<rparr>"
    by (simp add: ex_store_def ex_pid_ok)
  have priv: "ex_store\<lparr>posts := (posts ex_store)(toHexString ex_pid \<mapsto> ex_post\<lparr>ispublic := b\<rparr>)\<rparr>
      = ex_store\<lparr>posts := [ex_pid \<mapsto> ex_post\<lparr>ispublic := b\<rparr>]\<rparr>" for b
    by (simp add: ex_store_def ex_pid_ok)
  have same: "ex_store\<lparr>posts := (posts ex_store)(toHexString ex_pid \<mapsto> ex_post)\<rparr> = ex_store"
    by (simp add: ex_store_def ex_pid_ok)
  note dp = deletePost_cases
  have 1: "deletePost ex_store ''nonsense'' ex_u1 = (ex_store, Inl (NotFound ''Post not found''))"
    using dp [of ex_store "''nonsense''" ex_u1] bad by blast
  have 2: "deletePost ex_store ''5d7a514b5d2c12c7449be0ff'' ex_u1
       = (ex_store, Inl (NotFound ''Post not found''))"
    using dp [of ex_store "''5d7a514b5d2c12c7449be0ff''" ex_u1] unknown by blast
  have 3: "deletePost ex_store ex_pid ex_u2
       = (ex_store, Inl (Unauthorized ''User unauthorized to delete post''))"
    using dp [of ex_store ex_pid ex_u2] ex_findById owner by blast
  have 4: "deletePost ex_store ex_pid ex_u1 = (ex_store\<lparr>posts := Map.empty\<rparr>, Inr ''Post removed'')"
    using dp [of ex_store ex_pid ex_u1] ex_findById owner upd by metis
  have "snd (deletePost (ex_store\<lparr>posts := (posts ex_store)(toHexString ex_pid \<mapsto> ex_post\<lparr>ispublic := False\<rparr>)\<rparr>) ex_pid ex_u1)
      = snd (deletePost (ex_store\<lparr>posts := (posts ex_store)(toHexString ex_pid \<mapsto> ex_post)\<rparr>) ex_pid ex_u1)"
    using dp [of ex_store ex_pid ex_u1] ex_pid_ok(1) by blast
  then have 5: "snd (deletePost (ex_store\<lparr>posts := [ex_pid \<mapsto> ex_post\<lparr>ispublic := False\<rparr>]\<rparr>) ex_pid ex_u1)
       = Inr ''Post removed''"
    by (simp add: priv same 4)
  from 1 2 3 4 5 show ?thesis by blast
qed

section \<open>Deleting a comment\<close>

text \<open>
  C7: on an existing post, when no comment has the given id the answer is \<open>NotFound\<close>
  (Comment does not exist); when the first comment with that id was written by another
  user the answer is \<open>Unauthorized\<close> and the store is unchanged; otherwise that one
  comment is removed, and the comments before it and after it stay, in their order.
\<close>

theorem deleteComment_cases:
  assumes "findById (posts st) pid = Inr (Some p)"
  shows "(cid \<notin> set (map comment_id (comments p)) \<longrightarrow>
            deleteComment st pid cid uid = (st, Inl (NotFound ''Comment does not exist'')))
       \<and> (\<forall>pre c suf.
             comments p = pre @ c # suf \<and> comment_id c = cid
               \<and> cid \<notin> set (map comment_id pre) \<longrightarrow>
             (comment_user c \<noteq> uid \<longrightarrow>
                deleteComment st pid cid uid = (st, Inl (Unauthorized ''User not authorized'')))
           \<and> (comment_user c = uid \<longrightarrow>
                deleteComment st pid cid uid =
                  (st\<lparr>posts := (posts st)(toHexString pid \<mapsto> p\<lparr>comments := pre @ suf\<rparr>)\<rparr>,
                   Inr ''Comment deleted'')))"
proof (intro conjI allI impI)
  assume "cid \<notin> set (map comment_id (comments p))"
  then have "findIndex (\<lambda>c. comment_id c = cid) (comments p) = - 1"
    by (intro findIndex_none) auto
  with assms show "deleteComment st pid cid uid = (st, Inl (NotFound ''Comment does not exist''))"
    by (simp add: deleteComment_def at_index_minus1)
next
  fix pre c suf
  assume split: "comments p = pre @ c # suf \<and> comment_id c = cid
      \<and> cid \<notin> set (map comment_id pre)"
  then have "cid \<notin> comment_id ` set pre"
    by simp
  then have "\<forall>x\<in>set pre. \<not> comment_id x = cid"
    by blast
  with split have idx: "findIndex (\<lambda>c. comment_id c = cid) (comments p) = int (length pre)"
    by (simp add: findIndex_first)
  have at: "at_index (comments p) (int (length pre)) = Some c"
    using split by (simp add: at_index_middle)
  have rest: "splice_js (int (length pre)) (Suc 0) (comments p) = pre @ suf"
    using split by (simp add: splice_middle)
  {
    assume "comment_user c \<noteq> uid"
    with assms idx at
    show "deleteComment st pid cid uid = (st, Inl (Unauthorized ''User not authorized''))"
      by (simp add: deleteComment_def)
  next
    assume "comment_user c = uid"
    with assms idx at rest
    show "deleteComment st pid cid uid =
        (st\<lparr>posts := (posts st)(toHexString pid \<mapsto> p\<lparr>comments := pre @ suf\<rparr>)\<rparr>,
         Inr ''Comment deleted'')"
      by (simp add: deleteComment_def)
  }
qed


theorem deleteComment_cases_witness:
  "deleteComment ex_store ex_pid ex_c9 ex_u1
     = (ex_store, Inl (NotFound ''Comment does not exist''))
   \<and> deleteComment ex_store ex_pid ex_c2 ex_u2
     = (ex_store, Inl (Unauthorized ''User not authorized''))
   \<and> deleteComment ex_store ex_pid ex_c2 ex_u1
     = (ex_store\<lparr>posts := [ex_pid \<mapsto> ex_post\<lparr>comments := [ex_comment1]\<rparr>]\<rparr>,
        Inr ''Comment deleted'')"
proof -
  note dc = deleteComment_cases [OF ex_findById]
  have cs: "comments ex_post = [ex_comment1] @ ex_comment2 # []"
    by (simp add: ex_post_def)
  have ids: "ex_c9 \<notin> set (map comment_id (comments ex_post))"
    "comment_id ex_comment2 = ex_c2" "ex_c2 \<notin> set (map comment_id [ex_comment1])"
    by (simp_all add: ex_post_def ex_comment1_def ex_comment2_def)
  have author: "comment_user ex_comment2 = ex_u1" "comment_user ex_comment2 \<noteq> ex_u2"
    by (simp_all add: ex_comment2_def)
  have upd: "ex_store\<lparr>posts := (posts ex_store)
        (toHexString ex_pid \<mapsto> ex_post\<lparr>comments := [ex_comment1] @ []\<rparr>)\<rparr>
      = ex_store\<lparr>posts := [ex_pid \<mapsto> ex_post\<lparr>comments := [ex_comment1]\<rparr>]\<rparr>"
    by (simp add: ex_store_def ex_pid_ok)
  have 1: "deleteComment ex_store ex_pid ex_c9 ex_u1
     = (ex_store, Inl (NotFound ''Comment does not exist''))"
    using dc [of ex_c9 ex_u1] ids(1) by blast
  have 2: "deleteComment ex_store ex_pid ex_c2 ex_u2
     = (ex_store, Inl (Unauthorized ''User not authorized''))"
    using dc [of ex_c2 ex_u2] cs ids(2,3) author(2) by blast
  have "deleteComment ex_store ex_pid ex_c2 ex_u1
     = (ex_store\<lparr>posts := (posts ex_store)
          (toHexString ex_pid \<mapsto> ex_post\<lparr>comments := [ex_comment1] @ []\<rparr>)\<rparr>,
        Inr ''Comment deleted'')"
    using dc [of ex_c2 ex_u1] cs ids(2,3) author(1) by blast
  then have 3: "deleteComment ex_store ex_pid ex_c2 ex_u1
     = (ex_store\<lparr>posts := [ex_pid \<mapsto> ex_post\<lparr>comments := [ex_comment1]\<rparr>]\<rparr>,
        Inr ''Comment deleted'')"
    by (simp only: upd)
  from 1 2 3 show ?thesis by blast
qed

section \<open>Experience and education entries\<close>

text \<open>With a profile, the new entry is put at the head and the profile is returned.\<close>

lemma addExperience_head:
  assumes "\<not> isEmpty (body_exp_title body)" and "\<not> isEmpty (body_exp_company body)"
    and "\<not> isEmpty (body_exp_from body)" and "profiles st uid = Some p"
  shows "\<exists>e. addExperience st new_id uid body =
            (st\<lparr>profiles := (profiles st)(uid \<mapsto> p\<lparr>prof_experience := e # prof_experience p\<rparr>)\<rparr>,
             Inr (p\<lparr>prof_experience := e # prof_experience p\<rparr>))
          \<and> exp_id e = new_id \<and> exp_title e = body_exp_title body
          \<and> exp_company e = body_exp_company body \<and> exp_from e = body_exp_from body"
proof -
  let ?e = "\<lparr>exp_id = new_id, exp_title = body_exp_title body,
    exp_company = body_exp_company body, exp_location = body_exp_location body,
    exp_from = body_exp_from body, exp_to = body_exp_to body,
    exp_current = body_exp_current body, exp_description = body_exp_description body\<rparr>"
  have "addExperience st new_id uid body =
      (st\<lparr>profiles := (profiles st)(uid \<mapsto> p\<lparr>prof_experience := ?e # prof_experience p\<rparr>)\<rparr>,
       Inr (p\<lparr>prof_experience := ?e # prof_experience p\<rparr>))"
    using assms by (simp add: addExperience_def Let_def)
  then show ?thesis
    by (intro exI [of _ ?e]) simp
qed

text \<open>
  C8 (the code differs): a request with a title, a company and a from date, by a user
  who has no profile, is not answered with \<open>NotFound\<close>. \<open>findOne\<close> returns \<open>null\<close>,
  \<open>profile.experience\<close> raises, and the \<open>catch\<close> answers 500 \<open>Server Error\<close>.
\<close>

theorem addExperience_no_profile_server_error:
  "\<not> isEmpty (body_exp_title ex_experience_body)
   \<and> \<not> isEmpty (body_exp_company ex_experience_body)
   \<and> \<not> isEmpty (body_exp_from ex_experience_body)
   \<and> profiles ex_store ex_u1 = None
   \<and> addExperience ex_store ex_e1 ex_u1 ex_experience_body = (ex_store, Inl ServerError)"
  by (simp add: addExperience_def ex_experience_body_def ex_store_def)

lemma indexOf_absent: "s \<notin> set xs \<Longrightarrow> indexOf xs s = - 1"
  unfolding indexOf_def by (rule findIndex_none) auto

text \<open>
  C9: on an existing profile, removing an experience entry or an education entry by an
  id that no entry of the sequence has answers with the profile as it is, and writes
  nothing to the store; it is not an error.
\<close>

theorem remove_unknown_entry_noop:
  assumes "profiles st uid = Some p"
  shows "(eid \<notin> set (map exp_id (prof_experience p)) \<longrightarrow>
           removeExperience st uid eid = (st, Inr p))
       \<and> (eid \<notin> set (map edu_id (prof_education p)) \<longrightarrow>
           removeEducation st uid eid = (st, Inr p))"
  using assms by (simp add: removeExperience_def removeEducation_def indexOf_absent)

theorem remove_unknown_entry_noop_witness:
  "removeExperience ex_profile_store ex_u1 ex_e7 = (ex_profile_store, Inr ex_profile)
   \<and> removeEducation ex_profile_store ex_u1 ex_e1 = (ex_profile_store, Inr ex_profile)"
proof -
  have stored: "profiles ex_profile_store ex_u1 = Some ex_profile"
    by (simp add: ex_profile_store_def)
  have absent: "ex_e7 \<notin> set (map exp_id (prof_experience ex_profile))"
    "ex_e1 \<notin> set (map edu_id (prof_education ex_profile))"
    by (simp_all add: ex_profile_def ex_experience_def ex_education_def)
  show ?thesis
    using remove_unknown_entry_noop [OF stored, of ex_e7]
      remove_unknown_entry_noop [OF stored, of ex_e1] absent
    by blast
qed

section \<open>Creating and updating a profile\<close>

text \<open>
  The update of an existing profile, when the request passes the validation and the
  skills do not raise: the stored profile with the fields of the request set.
\<close>

lemma upsertProfile_update:
  assumes "profiles st uid = Some p"
    and "\<not> isEmpty (body_status b)" and "\<not> isEmpty (body_skills b)"
    and "skills_field (body_skills b) = Inr sk"
  shows "upsertProfile st uid b =
     (st\<lparr>profiles := (profiles st)(uid \<mapsto>
         set_fields p
           \<lparr>pf_user = Some uid,
            pf_company = when_truthy (body_company b),
            pf_website = when_truthy (body_website b),
            pf_location = when_truthy (body_location b),
            pf_bio = when_truthy (body_bio b),
            pf_status = when_truthy (body_status b),
            pf_githubusername = when_truthy (body_githubusername b),
            pf_skills = sk,
            pf_social = Some (social_fields b)\<rparr>)\<rparr>,
      Inr (set_fields p
           \<lparr>pf_user = Some uid,
            pf_company = when_truthy (body_company b),
            pf_website = when_truthy (body_website b),
            pf_location = when_truthy (body_location b),
            pf_bio = when_truthy (body_bio b),
            pf_status = when_truthy (body_status b),
            pf_githubusername = when_truthy (body_githubusername b),
            pf_skills = sk,
            pf_social = Some (social_fields b)\<rparr>))"
  using assms by (simp add: upsertProfile_def Let_def)

lemma set_key_when_truthy:
  "set_key (when_truthy v) old = (if truthy v then Some v else old)"
  by (simp add: set_key_def when_truthy_def)

lemma set_key_twice:
  "set_key (when_truthy v2) (set_key (when_truthy v1) old) =
     (if truthy v2 then Some v2 else if truthy v1 then Some v1 else old)"
  by (simp add: set_key_def when_truthy_def)

lemma social_fields_keys:
  "social_fields b =
     \<lparr>youtube = (if truthy (body_youtube b) then Some (body_youtube b) else None),
      twitter = (if truthy (body_twitter b) then Some (body_twitter b) else None),
      facebook = (if truthy (body_facebook b) then Some (body_facebook b) else None),
      linkedin = (if truthy (body_linkedin b) then Some (body_linkedin b) else None),
      instagram = (if truthy (body_instagram b) then Some (body_instagram b) else None),
      devpost = (if truthy (body_devpost b) then Some (body_devpost b) else None)\<rparr>"
  by (simp add: social_fields_def when_truthy_def)

lemma trim_examples:
  "trim ''JS'' = ''JS''"
  "trim '' SQL'' = ''SQL''"
  "trim [CHR ''J'', CHR ''S'', CHR 0xC2, CHR 0xA0] = ''JS''"
  "trim [CHR '' '', CHR ''S'', CHR ''Q'', CHR ''L'', CHR 0x09] = ''SQL''"
  "trim ([CHR 0xEF, CHR 0xBB, CHR 0xBF, CHR 0x09] @ ''J S''
      @ [CHR 0xE2, CHR 0x80, CHR 0xA8, CHR 0x20, CHR 0xE3, CHR 0x80, CHR 0x80]) = ''J S''"
  "trim [CHR ''d'', CHR 0xC3, CHR 0xA0] = [CHR ''d'', CHR 0xC3, CHR 0xA0]"
  by code_simp+

lemma set_key_skills_field:
  assumes "\<not> isEmpty v" and "skills_field v = Inr sk"
  shows "set_key sk old =
    (case v of JStr s \<Rightarrow> Some (map trim (split_comma s)) | _ \<Rightarrow> old)"
  using assms by (cases v) (auto simp: skills_field_def set_key_def split: if_splits)

lemma ex_profile_stored: "profiles ex_profile_store ex_u1 = Some ex_profile"
  by (simp add: ex_profile_store_def)

lemma ex_bodies_valid:
  "\<not> isEmpty (body_status ex_body_twitter)" "\<not> isEmpty (body_skills ex_body_twitter)"
  "skills_field (body_skills ex_body_twitter) = Inr (Some [''JS'', ''SQL''])"
  "\<not> isEmpty (body_status ex_body_bio)" "\<not> isEmpty (body_skills ex_body_bio)"
  "skills_field (body_skills ex_body_bio) = Inr (Some [''JS'', ''SQL''])"
  "\<not> isEmpty (body_status ex_body_empty)" "\<not> isEmpty (body_skills ex_body_empty)"
  "skills_field (body_skills ex_body_empty) = Inr (Some [''JS'', ''SQL''])"
  by (simp_all add: ex_body_twitter_def ex_body_bio_def ex_body_empty_def ex_body_def
      skills_field_def trim_examples)

lemma when_truthy_falsy: "\<not> truthy v \<Longrightarrow> when_truthy v = None"
  by (simp add: when_truthy_def)

lemma when_truthy_undefined: "when_truthy JUndefined = None"
  by (simp add: when_truthy_def)

lemma upsertProfile_succeeds:
  assumes "upsertProfile st uid b = (st', Inr p')"
  shows "\<not> isEmpty (body_status b) \<and> \<not> isEmpty (body_skills b)
     \<and> (\<exists>sk. skills_field (body_skills b) = Inr sk)"
proof (cases "skills_field (body_skills b)")
  case (Inl e)
  with assms show ?thesis
    by (simp add: upsertProfile_def split: if_splits)
next
  case (Inr sk)
  with assms show ?thesis
    by (simp add: upsertProfile_def split: if_splits)
qed

lemma upsertProfile_social:
  assumes "upsertProfile st uid b = (st', Inr p')"
  shows "prof_social p' = Some (social_fields b)"
proof -
  from upsertProfile_succeeds [OF assms] obtain sk where
    ok: "\<not> isEmpty (body_status b)" "\<not> isEmpty (body_skills b)"
      "skills_field (body_skills b) = Inr sk"
    by blast
  show ?thesis
  proof (cases "profiles st uid")
    case None
    with assms ok show ?thesis
      by (auto simp: upsertProfile_def Let_def new_Profile_def)
  next
    case (Some p)
    from assms show ?thesis
      unfolding upsertProfile_update [OF Some ok]
      by (auto simp: set_fields_def set_key_def)
  qed
qed

lemma upsertProfile_top_level:
  assumes "profiles st uid = Some p" and "upsertProfile st uid b = (st', Inr p')"
  shows "prof_company p' = set_key (when_truthy (body_company b)) (prof_company p)"
    and "prof_website p' = set_key (when_truthy (body_website b)) (prof_website p)"
    and "prof_location p' = set_key (when_truthy (body_location b)) (prof_location p)"
    and "prof_bio p' = set_key (when_truthy (body_bio b)) (prof_bio p)"
    and "prof_githubusername p' =
      set_key (when_truthy (body_githubusername b)) (prof_githubusername p)"
proof -
  from upsertProfile_succeeds [OF assms(2)] obtain sk where
    ok: "\<not> isEmpty (body_status b)" "\<not> isEmpty (body_skills b)"
      "skills_field (body_skills b) = Inr sk"
    by blast
  from assms(2) have p': "p' = set_fields p
           \<lparr>pf_user = Some uid,
            pf_company = when_truthy (body_company b),
            pf_website = when_truthy (body_website b),
            pf_location = when_truthy (body_location b),
            pf_bio = when_truthy (body_bio b),
            pf_status = when_truthy (body_status b),
            pf_githubusername = when_truthy (body_githubusername b),
            pf_skills = sk,
            pf_social = Some (social_fields b)\<rparr>"
    unfolding upsertProfile_update [OF assms(1) ok] by simp
  show "prof_company p' = set_key (when_truthy (body_company b)) (prof_company p)"
    and "prof_website p' = set_key (when_truthy (body_website b)) (prof_website p)"
    and "prof_location p' = set_key (when_truthy (body_location b)) (prof_location p)"
    and "prof_bio p' = set_key (when_truthy (body_bio b)) (prof_bio p)"
    and "prof_githubusername p' =
      set_key (when_truthy (body_githubusername b)) (prof_githubusername p)"
    by (simp_all add: p' set_fields_def)
qed

lemma upsertProfile_falsy_eq:
  assumes "\<not> truthy v"
  shows "upsertProfile st uid (b\<lparr>body_company := v\<rparr>)
       = upsertProfile st uid (b\<lparr>body_company := JUndefined\<rparr>)"
    and "upsertProfile st uid (b\<lparr>body_website := v\<rparr>)
       = upsertProfile st uid (b\<lparr>body_website := JUndefined\<rparr>)"
    and "upsertProfile st uid (b\<lparr>body_location := v\<rparr>)
       = upsertProfile st uid (b\<lparr>body_location := JUndefined\<rparr>)"
    and "upsertProfile st uid (b\<lparr>body_bio := v\<rparr>)
       = upsertProfile st uid (b\<lparr>body_bio := JUndefined\<rparr>)"
    and "upsertProfile st uid (b\<lparr>body_githubusername := v\<rparr>)
       = upsertProfile st uid (b\<lparr>body_githubusername := JUndefined\<rparr>)"
    and "upsertProfile st uid (b\<lparr>body_youtube := v\<rparr>)
       = upsertProfile st uid (b\<lparr>body_youtube := JUndefined\<rparr>)"
    and "upsertProfile st uid (b\<lparr>body_twitter := v\<rparr>)
       = upsertProfile st uid (b\<lparr>body_twitter := JUndefined\<rparr>)"
    and "upsertProfile st uid (b\<lparr>body_facebook := v\<rparr>)
       = upsertProfile st uid (b\<lparr>body_facebook := JUndefined\<rparr>)"
    and "upsertProfile st uid (b\<lparr>body_linkedin := v\<rparr>)
       = upsertProfile st uid (b\<lparr>body_linkedin := JUndefined\<rparr>)"
    and "upsertProfile st uid (b\<lparr>body_instagram := v\<rparr>)
       = upsertProfile st uid (b\<lparr>body_instagram := JUndefined\<rparr>)"
    and "upsertProfile st uid (b\<lparr>body_devpost := v\<rparr>)
       = upsertProfile st uid (b\<lparr>body_devpost := JUndefined\<rparr>)"
  using assms
  by (simp_all add: upsertProfile_def social_fields_def when_truthy_falsy
      when_truthy_undefined Let_def cong: sum.case_cong)

text \<open>
  C3 (as stated, it fails): a social key that the request does not give does not keep
  its stored value. The update sets the key \<open>social\<close> to the object built from the
  request, so the stored YouTube link is gone after a request that gives only a Twitter
  link and a website, while the company and the location, top-level keys the request
  does not give, are kept.
\<close>

theorem upsertProfile_absent_social_key_cleared:
  "profiles ex_profile_store ex_u1 = Some ex_profile
   \<and> map_option youtube (prof_social ex_profile) = Some (Some (JStr ''yt.example/ada''))
   \<and> body_youtube ex_body_twitter = JUndefined
   \<and> snd (upsertProfile ex_profile_store ex_u1 ex_body_twitter) =
       Inr (ex_profile\<lparr>prof_website := Some (JStr ''ada.example''),
              prof_status := Some (JStr ''Senior''), prof_skills := Some [''JS'', ''SQL''],
              prof_social := Some \<lparr>youtube = None, twitter = Some (JStr ''tw.example/ada''),
                facebook = None, linkedin = None, instagram = None, devpost = None\<rparr>\<rparr>)"
proof -
  have "snd (upsertProfile ex_profile_store ex_u1 ex_body_twitter) =
       Inr (ex_profile\<lparr>prof_website := Some (JStr ''ada.example''),
              prof_status := Some (JStr ''Senior''), prof_skills := Some [''JS'', ''SQL''],
              prof_social := Some \<lparr>youtube = None, twitter = Some (JStr ''tw.example/ada''),
                facebook = None, linkedin = None, instagram = None, devpost = None\<rparr>\<rparr>)"
    unfolding upsertProfile_update [OF ex_profile_stored ex_bodies_valid(1-3)]
    by (simp add: set_fields_def set_key_def when_truthy_def social_fields_def
        ex_body_twitter_def ex_body_def ex_profile_def)
  then show ?thesis
    by (simp add: ex_profile_stored) (simp add: ex_profile_def ex_body_twitter_def ex_body_def)
qed

text \<open>
  C3 (amended): on an existing profile, a request that passes the validation, and whose
  skills do not raise, sets each top-level key it gives a truthy value for (the skills
  to the trimmed pieces between the commas) and keeps the stored value of every other
  top-level key; the key \<open>social\<close> is set to the object that holds exactly the social
  keys the request gives a truthy value for, so a social key the request does not give
  has no value afterwards; the experience and education entries are kept. After two
  calls a top-level key has the second call's value if that is truthy, else the first
  call's if that is truthy, else the stored one, and \<open>social\<close> holds the social keys of
  the second call only.
\<close>

theorem upsertProfile_merge:
  assumes "profiles st uid = Some p"
    and "\<not> isEmpty (body_status b1)" and "\<not> isEmpty (body_skills b1)"
    and "skills_field (body_skills b1) = Inr sk1"
    and "\<not> isEmpty (body_status b2)" and "\<not> isEmpty (body_skills b2)"
    and "skills_field (body_skills b2) = Inr sk2"
  shows "\<exists>st1 p1 st2 p2.
     upsertProfile st uid b1 = (st1, Inr p1) \<and> profiles st1 uid = Some p1
   \<and> upsertProfile st1 uid b2 = (st2, Inr p2) \<and> profiles st2 uid = Some p2
   \<and> prof_company p1 =
       (if truthy (body_company b1) then Some (body_company b1) else prof_company p)
   \<and> prof_website p1 =
       (if truthy (body_website b1) then Some (body_website b1) else prof_website p)
   \<and> prof_location p1 =
       (if truthy (body_location b1) then Some (body_location b1) else prof_location p)
   \<and> prof_bio p1 = (if truthy (body_bio b1) then Some (body_bio b1) else prof_bio p)
   \<and> prof_status p1 =
       (if truthy (body_status b1) then Some (body_status b1) else prof_status p)
   \<and> prof_githubusername p1 =
       (if truthy (body_githubusername b1) then Some (body_githubusername b1)
        else prof_githubusername p)
   \<and> prof_skills p1 =
       (case body_skills b1 of JStr s \<Rightarrow> Some (map trim (split_comma s))
        | _ \<Rightarrow> prof_skills p)
   \<and> prof_social p1 =
       Some \<lparr>youtube = (if truthy (body_youtube b1) then Some (body_youtube b1) else None),
             twitter = (if truthy (body_twitter b1) then Some (body_twitter b1) else None),
             facebook = (if truthy (body_facebook b1) then Some (body_facebook b1) else None),
             linkedin = (if truthy (body_linkedin b1) then Some (body_linkedin b1) else None),
             instagram = (if truthy (body_instagram b1) then Some (body_instagram b1) else None),
             devpost = (if truthy (body_devpost b1) then Some (body_devpost b1) else None)\<rparr>
   \<and> prof_experience p1 = prof_experience p \<and> prof_education p1 = prof_education p
   \<and> prof_company p2 =
       (if truthy (body_company b2) then Some (body_company b2)
        else if truthy (body_company b1) then Some (body_company b1) else prof_company p)
   \<and> prof_website p2 =
       (if truthy (body_website b2) then Some (body_website b2)
        else if truthy (body_website b1) then Some (body_website b1) else prof_website p)
   \<and> prof_location p2 =
       (if truthy (body_location b2) then Some (body_location b2)
        else if truthy (body_location b1) then Some (body_location b1) else prof_location p)
   \<and> prof_bio p2 =
       (if truthy (body_bio b2) then Some (body_bio b2)
        else if truthy (body_bio b1) then Some (body_bio b1) else prof_bio p)
   \<and> prof_status p2 =
       (if truthy (body_status b2) then Some (body_status b2)
        else if truthy (body_status b1) then Some (body_status b1) else prof_status p)
   \<and> prof_githubusername p2 =
       (if truthy (body_githubusername b2) then Some (body_githubusername b2)
        else if truthy (body_githubusername b1) then Some (body_githubusername b1)
        else prof_githubusername p)
   \<and> prof_skills p2 =
       (case body_skills b2 of JStr s \<Rightarrow> Some (map trim (split_comma s))
        | _ \<Rightarrow> (case body_skills b1 of JStr s \<Rightarrow> Some (map trim (split_comma s))
                | _ \<Rightarrow> prof_skills p))
   \<and> prof_social p2 =
       Some \<lparr>youtube = (if truthy (body_youtube b2) then Some (body_youtube b2) else None),
             twitter = (if truthy (body_twitter b2) then Some (body_twitter b2) else None),
             facebook = (if truthy (body_facebook b2) then Some (body_facebook b2) else None),
             linkedin = (if truthy (body_linkedin b2) then Some (body_linkedin b2) else None),
             instagram = (if truthy (body_instagram b2) then Some (body_instagram b2) else None),
             devpost = (if truthy (body_devpost b2) then Some (body_devpost b2) else None)\<rparr>
   \<and> prof_experience p2 = prof_experience p \<and> prof_education p2 = prof_education p"
proof -
  let ?f1 = "\<lparr>pf_user = Some uid,
            pf_company = when_truthy (body_company b1),
            pf_website = when_truthy (body_website b1),
            pf_location = when_truthy (body_location b1),
            pf_bio = when_truthy (body_bio b1),
            pf_status = when_truthy (body_status b1),
            pf_githubusername = when_truthy (body_githubusername b1),
            pf_skills = sk1,
            pf_social = Some (social_fields b1)\<rparr>"
  let ?f2 = "\<lparr>pf_user = Some uid,
            pf_company = when_truthy (body_company b2),
            pf_website = when_truthy (body_website b2),
            pf_location = when_truthy (body_location b2),
            pf_bio = when_truthy (body_bio b2),
            pf_status = when_truthy (body_status b2),
            pf_githubusername = when_truthy (body_githubusername b2),
            pf_skills = sk2,
            pf_social = Some (social_fields b2)\<rparr>"
  let ?p1 = "set_fields p ?f1"
  let ?st1 = "st\<lparr>profiles := (profiles st)(uid \<mapsto> ?p1)\<rparr>"
  let ?p2 = "set_fields ?p1 ?f2"
  let ?st2 = "?st1\<lparr>profiles := (profiles ?st1)(uid \<mapsto> ?p2)\<rparr>"
  have first: "upsertProfile st uid b1 = (?st1, Inr ?p1)"
    using assms(1-4) by (rule upsertProfile_update)
  have stored1: "profiles ?st1 uid = Some ?p1"
    by simp
  have second: "upsertProfile ?st1 uid b2 = (?st2, Inr ?p2)"
    using stored1 assms(5-7) by (rule upsertProfile_update)
  have stored2: "profiles ?st2 uid = Some ?p2"
    by simp
  have k1: "prof_company ?p1 =
       (if truthy (body_company b1) then Some (body_company b1) else prof_company p)"
    "prof_website ?p1 =
       (if truthy (body_website b1) then Some (body_website b1) else prof_website p)"
    "prof_location ?p1 =
       (if truthy (body_location b1) then Some (body_location b1) else prof_location p)"
    "prof_bio ?p1 = (if truthy (body_bio b1) then Some (body_bio b1) else prof_bio p)"
    "prof_status ?p1 =
       (if truthy (body_status b1) then Some (body_status b1) else prof_status p)"
    "prof_githubusername ?p1 =
       (if truthy (body_githubusername b1) then Some (body_githubusername b1)
        else prof_githubusername p)"
    "prof_skills ?p1 =
       (case body_skills b1 of JStr s \<Rightarrow> Some (map trim (split_comma s))
        | _ \<Rightarrow> prof_skills p)"
    "prof_experience ?p1 = prof_experience p" "prof_education ?p1 = prof_education p"
    by (simp_all add: set_fields_def set_key_when_truthy
        set_key_skills_field [OF assms(3,4)])
  have s1: "prof_social ?p1 =
       Some \<lparr>youtube = (if truthy (body_youtube b1) then Some (body_youtube b1) else None),
             twitter = (if truthy (body_twitter b1) then Some (body_twitter b1) else None),
             facebook = (if truthy (body_facebook b1) then Some (body_facebook b1) else None),
             linkedin = (if truthy (body_linkedin b1) then Some (body_linkedin b1) else None),
             instagram = (if truthy (body_instagram b1) then Some (body_instagram b1) else None),
             devpost = (if truthy (body_devpost b1) then Some (body_devpost b1) else None)\<rparr>"
    unfolding social_fields_keys [symmetric] by (simp add: set_fields_def set_key_def)
  have k2: "prof_company ?p2 =
       (if truthy (body_company b2) then Some (body_company b2)
        else if truthy (body_company b1) then Some (body_company b1) else prof_company p)"
    "prof_website ?p2 =
       (if truthy (body_website b2) then Some (body_website b2)
        else if truthy (body_website b1) then Some (body_website b1) else prof_website p)"
    "prof_location ?p2 =
       (if truthy (body_location b2) then Some (body_location b2)
        else if truthy (body_location b1) then Some (body_location b1) else prof_location p)"
    "prof_bio ?p2 =
       (if truthy (body_bio b2) then Some (body_bio b2)
        else if truthy (body_bio b1) then Some (body_bio b1) else prof_bio p)"
    "prof_status ?p2 =
       (if truthy (body_status b2) then Some (body_status b2)
        else if truthy (body_status b1) then Some (body_status b1) else prof_status p)"
    "prof_githubusername ?p2 =
       (if truthy (body_githubusername b2) then Some (body_githubusername b2)
        else if truthy (body_githubusername b1) then Some (body_githubusername b1)
        else prof_githubusername p)"
    "prof_experience ?p2 = prof_experience p" "prof_education ?p2 = prof_education p"
    by (simp_all add: set_fields_def set_key_twice)
  have sk: "prof_skills ?p2 =
       (case body_skills b2 of JStr s \<Rightarrow> Some (map trim (split_comma s))
        | _ \<Rightarrow> (case body_skills b1 of JStr s \<Rightarrow> Some (map trim (split_comma s))
                | _ \<Rightarrow> prof_skills p))"
    by (simp add: set_fields_def set_key_skills_field [OF assms(3,4)]
        set_key_skills_field [OF assms(6,7)])
  have s2: "prof_social ?p2 =
       Some \<lparr>youtube = (if truthy (body_youtube b2) then Some (body_youtube b2) else None),
             twitter = (if truthy (body_twitter b2) then Some (body_twitter b2) else None),
             facebook = (if truthy (body_facebook b2) then Some (body_facebook b2) else None),
             linkedin = (if truthy (body_linkedin b2) then Some (body_linkedin b2) else None),
             instagram = (if truthy (body_instagram b2) then Some (body_instagram b2) else None),
             devpost = (if truthy (body_devpost b2) then Some (body_devpost b2) else None)\<rparr>"
    unfolding social_fields_keys [symmetric] by (simp add: set_fields_def set_key_def)
  show ?thesis
    by (intro exI conjI) (rule first stored1 second stored2 k1 s1 k2 sk s2)+
qed

theorem upsertProfile_merge_witness:
  "\<exists>st1 p1 st2 p2.
     upsertProfile ex_profile_store ex_u1 ex_body_twitter = (st1, Inr p1)
   \<and> upsertProfile st1 ex_u1 ex_body_bio = (st2, Inr p2)
   \<and> prof_company p2 = Some (JStr ''Acme'')
   \<and> prof_website p2 = Some (JStr ''ada.example'')
   \<and> prof_bio p2 = Some (JStr ''Hello'')
   \<and> prof_status p2 = Some (JStr ''Lead'')
   \<and> prof_skills p2 = Some [''JS'', ''SQL'']
   \<and> prof_social p1 = Some \<lparr>youtube = None, twitter = Some (JStr ''tw.example/ada''),
        facebook = None, linkedin = None, instagram = None, devpost = None\<rparr>
   \<and> prof_social p2 = Some \<lparr>youtube = None, twitter = None,
        facebook = None, linkedin = None, instagram = None, devpost = None\<rparr>
   \<and> prof_experience p2 = [ex_experience]"
proof -
  from upsertProfile_merge [OF ex_profile_stored ex_bodies_valid(1-6)]
  obtain st1 p1 st2 p2 where
    calls: "upsertProfile ex_profile_store ex_u1 ex_body_twitter = (st1, Inr p1)"
      "upsertProfile st1 ex_u1 ex_body_bio = (st2, Inr p2)"
    and company: "prof_company p2 =
       (if truthy (body_company ex_body_bio) then Some (body_company ex_body_bio)
        else if truthy (body_company ex_body_twitter) then Some (body_company ex_body_twitter)
        else prof_company ex_profile)"
    and website: "prof_website p2 =
       (if truthy (body_website ex_body_bio) then Some (body_website ex_body_bio)
        else if truthy (body_website ex_body_twitter) then Some (body_website ex_body_twitter)
        else prof_website ex_profile)"
    and bio: "prof_bio p2 =
       (if truthy (body_bio ex_body_bio) then Some (body_bio ex_body_bio)
        else if truthy (body_bio ex_body_twitter) then Some (body_bio ex_body_twitter)
        else prof_bio ex_profile)"
    and status: "prof_status p2 =
       (if truthy (body_status ex_body_bio) then Some (body_status ex_body_bio)
        else if truthy (body_status ex_body_twitter) then Some (body_status ex_body_twitter)
        else prof_status ex_profile)"
    and skills: "prof_skills p2 =
       (case body_skills ex_body_bio of JStr s \<Rightarrow> Some (map trim (split_comma s))
        | _ \<Rightarrow> (case body_skills ex_body_twitter of
                  JStr s \<Rightarrow> Some (map trim (split_comma s))
                | _ \<Rightarrow> prof_skills ex_profile))"
    and social1: "prof_social p1 =
       Some \<lparr>youtube = (if truthy (body_youtube ex_body_twitter)
                        then Some (body_youtube ex_body_twitter) else None),
             twitter = (if truthy (body_twitter ex_body_twitter)
                        then Some (body_twitter ex_body_twitter) else None),
             facebook = (if truthy (body_facebook ex_body_twitter)
                         then Some (body_facebook ex_body_twitter) else None),
             linkedin = (if truthy (body_linkedin ex_body_twitter)
                         then Some (body_linkedin ex_body_twitter) else None),
             instagram = (if truthy (body_instagram ex_body_twitter)
                          then Some (body_instagram ex_body_twitter) else None),
             devpost = (if truthy (body_devpost ex_body_twitter)
                        then Some (body_devpost ex_body_twitter) else None)\<rparr>"
    and social2: "prof_social p2 =
       Some \<lparr>youtube = (if truthy (body_youtube ex_body_bio)
                        then Some (body_youtube ex_body_bio) else None),
             twitter = (if truthy (body_twitter ex_body_bio)
                        then Some (body_twitter ex_body_bio) else None),
             facebook = (if truthy (body_facebook ex_body_bio)
                         then Some (body_facebook ex_body_bio) else None),
             linkedin = (if truthy (body_linkedin ex_body_bio)
                         then Some (body_linkedin ex_body_bio) else None),
             instagram = (if truthy (body_instagram ex_body_bio)
                          then Some (body_instagram ex_body_bio) else None),
             devpost = (if truthy (body_devpost ex_body_bio)
                        then Some (body_devpost ex_body_bio) else None)\<rparr>"
    and entries: "prof_experience p2 = prof_experience ex_profile"
    by blast
  have "prof_company p2 = Some (JStr ''Acme'')"
    using company by (simp add: ex_body_bio_def ex_body_twitter_def ex_body_def ex_profile_def)
  moreover have "prof_website p2 = Some (JStr ''ada.example'')"
    using website by (simp add: ex_body_bio_def ex_body_twitter_def ex_body_def)
  moreover have "prof_bio p2 = Some (JStr ''Hello'')"
    using bio by (simp add: ex_body_bio_def ex_body_def)
  moreover have "prof_status p2 = Some (JStr ''Lead'')"
    using status by (simp add: ex_body_bio_def ex_body_def)
  moreover have "prof_skills p2 = Some [''JS'', ''SQL'']"
    using skills by (simp add: ex_body_bio_def ex_body_def trim_examples)
  moreover have "prof_social p1 = Some \<lparr>youtube = None, twitter = Some (JStr ''tw.example/ada''),
        facebook = None, linkedin = None, instagram = None, devpost = None\<rparr>"
    using social1 by (simp add: ex_body_twitter_def ex_body_def)
  moreover have "prof_social p2 = Some \<lparr>youtube = None, twitter = None,
        facebook = None, linkedin = None, instagram = None, devpost = None\<rparr>"
    using social2 by (simp add: ex_body_bio_def ex_body_def)
  moreover have "prof_experience p2 = [ex_experience]"
    using entries by (simp add: ex_profile_def)
  ultimately show ?thesis
    using calls by blast
qed

text \<open>
  C10 (as stated, it fails): an empty value can leave a stored field cleared. A request
  that gives a Twitter link and sends the company and the YouTube link as empty strings
  keeps the stored company, but the stored YouTube link is gone: the empty value is
  left out of the new \<open>social\<close> object, and that object takes the place of the stored
  one.
\<close>

theorem upsertProfile_empty_youtube_cleared:
  "profiles ex_profile_store ex_u1 = Some ex_profile
   \<and> map_option youtube (prof_social ex_profile) = Some (Some (JStr ''yt.example/ada''))
   \<and> body_youtube ex_body_empty = JStr []
   \<and> snd (upsertProfile ex_profile_store ex_u1 ex_body_empty) =
       Inr (ex_profile\<lparr>prof_status := Some (JStr ''Senior''),
              prof_skills := Some [''JS'', ''SQL''],
              prof_social := Some \<lparr>youtube = None, twitter = Some (JStr ''tw.example/ada''),
                facebook = None, linkedin = None, instagram = None, devpost = None\<rparr>\<rparr>)"
proof -
  have "snd (upsertProfile ex_profile_store ex_u1 ex_body_empty) =
       Inr (ex_profile\<lparr>prof_status := Some (JStr ''Senior''),
              prof_skills := Some [''JS'', ''SQL''],
              prof_social := Some \<lparr>youtube = None, twitter = Some (JStr ''tw.example/ada''),
                facebook = None, linkedin = None, instagram = None, devpost = None\<rparr>\<rparr>)"
    unfolding upsertProfile_update [OF ex_profile_stored ex_bodies_valid(7-9)]
    by (simp add: set_fields_def set_key_def when_truthy_def social_fields_def
        ex_body_empty_def ex_body_def ex_profile_def)
  then show ?thesis
    by (simp add: ex_profile_stored) (simp add: ex_profile_def ex_body_empty_def ex_body_def)
qed

text \<open>
  C10 (amended): an optional field given with a falsy value is treated exactly as if it
  were absent: the call does what it does without the key. For the top-level keys
  (company, website, location, bio, githubusername) the stored value is kept. A social
  key given with a falsy value is left out of the \<open>social\<close> object that the call stores,
  so it has no value afterwards, as a social key that is absent.
\<close>

theorem upsertProfile_falsy_as_absent:
  assumes "\<not> truthy v"
  shows "upsertProfile st uid (b\<lparr>body_company := v\<rparr>)
       = upsertProfile st uid (b\<lparr>body_company := JUndefined\<rparr>)
   \<and> upsertProfile st uid (b\<lparr>body_website := v\<rparr>)
       = upsertProfile st uid (b\<lparr>body_website := JUndefined\<rparr>)
   \<and> upsertProfile st uid (b\<lparr>body_location := v\<rparr>)
       = upsertProfile st uid (b\<lparr>body_location := JUndefined\<rparr>)
   \<and> upsertProfile st uid (b\<lparr>body_bio := v\<rparr>)
       = upsertProfile st uid (b\<lparr>body_bio := JUndefined\<rparr>)
   \<and> upsertProfile st uid (b\<lparr>body_githubusername := v\<rparr>)
       = upsertProfile st uid (b\<lparr>body_githubusername := JUndefined\<rparr>)
   \<and> upsertProfile st uid (b\<lparr>body_youtube := v\<rparr>)
       = upsertProfile st uid (b\<lparr>body_youtube := JUndefined\<rparr>)
   \<and> upsertProfile st uid (b\<lparr>body_twitter := v\<rparr>)
       = upsertProfile st uid (b\<lparr>body_twitter := JUndefined\<rparr>)
   \<and> upsertProfile st uid (b\<lparr>body_facebook := v\<rparr>)
       = upsertProfile st uid (b\<lparr>body_facebook := JUndefined\<rparr>)
   \<and> upsertProfile st uid (b\<lparr>body_linkedin := v\<rparr>)
       = upsertProfile st uid (b\<lparr>body_linkedin := JUndefined\<rparr>)
   \<and> upsertProfile st uid (b\<lparr>body_instagram := v\<rparr>)
       = upsertProfile st uid (b\<lparr>body_instagram := JUndefined\<rparr>)
   \<and> upsertProfile st uid (b\<lparr>body_devpost := v\<rparr>)
       = upsertProfile st uid (b\<lparr>body_devpost := JUndefined\<rparr>)
   \<and> (\<forall>p st' p'. profiles st uid = Some p
          \<and> upsertProfile st uid (b\<lparr>body_company := v\<rparr>) = (st', Inr p')
        \<longrightarrow> prof_company p' = prof_company p)
   \<and> (\<forall>p st' p'. profiles st uid = Some p
          \<and> upsertProfile st uid (b\<lparr>body_website := v\<rparr>) = (st', Inr p')
        \<longrightarrow> prof_website p' = prof_website p)
   \<and> (\<forall>p st' p'. profiles st uid = Some p
          \<and> upsertProfile st uid (b\<lparr>body_location := v\<rparr>) = (st', Inr p')
        \<longrightarrow> prof_location p' = prof_location p)
   \<and> (\<forall>p st' p'. profiles st uid = Some p
          \<and> upsertProfile st uid (b\<lparr>body_bio := v\<rparr>) = (st', Inr p')
        \<longrightarrow> prof_bio p' = prof_bio p)
   \<and> (\<forall>p st' p'. profiles st uid = Some p
          \<and> upsertProfile st uid (b\<lparr>body_githubusername := v\<rparr>) = (st', Inr p')
        \<longrightarrow> prof_githubusername p' = prof_githubusername p)
   \<and> (\<forall>st' p'. upsertProfile st uid (b\<lparr>body_youtube := v\<rparr>) = (st', Inr p')
        \<longrightarrow> map_option youtube (prof_social p') = Some None)
   \<and> (\<forall>st' p'. upsertProfile st uid (b\<lparr>body_twitter := v\<rparr>) = (st', Inr p')
        \<longrightarrow> map_option twitter (prof_social p') = Some None)
   \<and> (\<forall>st' p'. upsertProfile st uid (b\<lparr>body_facebook := v\<rparr>) = (st', Inr p')
        \<longrightarrow> map_option facebook (prof_social p') = Some None)
   \<and> (\<forall>st' p'. upsertProfile st uid (b\<lparr>body_linkedin := v\<rparr>) = (st', Inr p')
        \<longrightarrow> map_option linkedin (prof_social p') = Some None)
   \<and> (\<forall>st' p'. upsertProfile st uid (b\<lparr>body_instagram := v\<rparr>) = (st', Inr p')
        \<longrightarrow> map_option instagram (prof_social p') = Some None)
   \<and> (\<forall>st' p'. upsertProfile st uid (b\<lparr>body_devpost := v\<rparr>) = (st', Inr p')
        \<longrightarrow> map_option devpost (prof_social p') = Some None)"
proof -
  note eqs = upsertProfile_falsy_eq [OF assms, of st uid b]
  have kept_company: "\<forall>p st' p'. profiles st uid = Some p
          \<and> upsertProfile st uid (b\<lparr>body_company := v\<rparr>) = (st', Inr p')
        \<longrightarrow> prof_company p' = prof_company p"
    using assms
    by (auto dest: upsertProfile_top_level(1) simp: set_key_def when_truthy_falsy)
  have kept_website: "\<forall>p st' p'. profiles st uid = Some p
          \<and> upsertProfile st uid (b\<lparr>body_website := v\<rparr>) = (st', Inr p')
        \<longrightarrow> prof_website p' = prof_website p"
    using assms
    by (auto dest: upsertProfile_top_level(2) simp: set_key_def when_truthy_falsy)
  have kept_location: "\<forall>p st' p'. profiles st uid = Some p
          \<and> upsertProfile st uid (b\<lparr>body_location := v\<rparr>) = (st', Inr p')
        \<longrightarrow> prof_location p' = prof_location p"
    using assms
    by (auto dest: upsertProfile_top_level(3) simp: set_key_def when_truthy_falsy)
  have kept_bio: "\<forall>p st' p'. profiles st uid = Some p
          \<and> upsertProfile st uid (b\<lparr>body_bio := v\<rparr>) = (st', Inr p')
        \<longrightarrow> prof_bio p' = prof_bio p"
    using assms
    by (auto dest: upsertProfile_top_level(4) simp: set_key_def when_truthy_falsy)
  have kept_githubusername: "\<forall>p st' p'. profiles st uid = Some p
          \<and> upsertProfile st uid (b\<lparr>body_githubusername := v\<rparr>) = (st', Inr p')
        \<longrightarrow> prof_githubusername p' = prof_githubusername p"
    using assms
    by (auto dest: upsertProfile_top_level(5) simp: set_key_def when_truthy_falsy)
  have drop_youtube: "\<forall>st' p'. upsertProfile st uid (b\<lparr>body_youtube := v\<rparr>) = (st', Inr p')
        \<longrightarrow> map_option youtube (prof_social p') = Some None"
    using assms
    by (auto dest!: upsertProfile_social simp: social_fields_def when_truthy_falsy)
  have drop_twitter: "\<forall>st' p'. upsertProfile st uid (b\<lparr>body_twitter := v\<rparr>) = (st', Inr p')
        \<longrightarrow> map_option twitter (prof_social p') = Some None"
    using assms
    by (auto dest!: upsertProfile_social simp: social_fields_def when_truthy_falsy)
  have drop_facebook: "\<forall>st' p'. upsertProfile st uid (b\<lparr>body_facebook := v\<rparr>) = (st', Inr p')
        \<longrightarrow> map_option facebook (prof_social p') = Some None"
    using assms
    by (auto dest!: upsertProfile_social simp: social_fields_def when_truthy_falsy)
  have drop_linkedin: "\<forall>st' p'. upsertProfile st uid (b\<lparr>body_linkedin := v\<rparr>) = (st', Inr p')
        \<longrightarrow> map_option linkedin (prof_social p') = Some None"
    using assms
    by (auto dest!: upsertProfile_social simp: social_fields_def when_truthy_falsy)
  have drop_instagram: "\<forall>st' p'. upsertProfile st uid (b\<lparr>body_instagram := v\<rparr>) = (st', Inr p')
        \<longrightarrow> map_option instagram (prof_social p') = Some None"
    using assms
    by (auto dest!: upsertProfile_social simp: social_fields_def when_truthy_falsy)
  have drop_devpost: "\<forall>st' p'. upsertProfile st uid (b\<lparr>body_devpost := v\<rparr>) = (st', Inr p')
        \<longrightarrow> map_option devpost (prof_social p') = Some None"
    using assms
    by (auto dest!: upsertProfile_social simp: social_fields_def when_truthy_falsy)
  show ?thesis
    by (intro conjI) (rule eqs kept_company kept_website kept_location kept_bio kept_githubusername
      drop_youtube drop_twitter drop_facebook drop_linkedin drop_instagram drop_devpost)+
qed

theorem upsertProfile_falsy_as_absent_witness:
  "upsertProfile ex_profile_store ex_u1 (ex_body\<lparr>body_company := JStr []\<rparr>)
     = upsertProfile ex_profile_store ex_u1 (ex_body\<lparr>body_company := JUndefined\<rparr>)
   \<and> upsertProfile ex_profile_store ex_u1 (ex_body\<lparr>body_youtube := JNull\<rparr>)
     = upsertProfile ex_profile_store ex_u1 (ex_body\<lparr>body_youtube := JUndefined\<rparr>)
   \<and> (\<exists>st' p'. upsertProfile ex_profile_store ex_u1 (ex_body\<lparr>body_company := JStr []\<rparr>)
          = (st', Inr p') \<and> prof_company p' = Some (JStr ''Acme''))
   \<and> (\<exists>st' p'. upsertProfile ex_profile_store ex_u1 (ex_body\<lparr>body_youtube := JStr []\<rparr>)
          = (st', Inr p') \<and> map_option youtube (prof_social p') = Some None)"
proof -
  have falsy: "\<not> truthy (JStr [])" "\<not> truthy JNull"
    by simp_all
  note empty = upsertProfile_falsy_as_absent [OF falsy(1), of ex_profile_store ex_u1 ex_body]
  note null = upsertProfile_falsy_as_absent [OF falsy(2), of ex_profile_store ex_u1 ex_body]
  have valid: "\<not> isEmpty (body_status (ex_body\<lparr>body_company := JStr []\<rparr>))"
    "\<not> isEmpty (body_skills (ex_body\<lparr>body_company := JStr []\<rparr>))"
    "skills_field (body_skills (ex_body\<lparr>body_company := JStr []\<rparr>)) = Inr (Some [''JS'', ''SQL''])"
    "\<not> isEmpty (body_status (ex_body\<lparr>body_youtube := JStr []\<rparr>))"
    "\<not> isEmpty (body_skills (ex_body\<lparr>body_youtube := JStr []\<rparr>))"
    "skills_field (body_skills (ex_body\<lparr>body_youtube := JStr []\<rparr>)) = Inr (Some [''JS'', ''SQL''])"
    by (simp_all add: ex_body_def skills_field_def trim_examples)
  from upsertProfile_update [OF ex_profile_stored valid(1-3)]
  obtain st1 p1 where
    c1: "upsertProfile ex_profile_store ex_u1 (ex_body\<lparr>body_company := JStr []\<rparr>) = (st1, Inr p1)"
    by blast
  from upsertProfile_update [OF ex_profile_stored valid(4-6)]
  obtain st2 p2 where
    c2: "upsertProfile ex_profile_store ex_u1 (ex_body\<lparr>body_youtube := JStr []\<rparr>) = (st2, Inr p2)"
    by blast
  from empty [THEN conjunct2, THEN conjunct2, THEN conjunct2, THEN conjunct2, THEN conjunct2, THEN conjunct2, THEN conjunct2, THEN conjunct2, THEN conjunct2, THEN conjunct2, THEN conjunct2, THEN conjunct1] ex_profile_stored c1
  have "prof_company p1 = prof_company ex_profile"
    by blast
  then have k: "prof_company p1 = Some (JStr ''Acme'')"
    by (simp add: ex_profile_def)
  from empty [THEN conjunct2, THEN conjunct2, THEN conjunct2, THEN conjunct2, THEN conjunct2, THEN conjunct2, THEN conjunct2, THEN conjunct2, THEN conjunct2, THEN conjunct2, THEN conjunct2, THEN conjunct2, THEN conjunct2, THEN conjunct2, THEN conjunct2, THEN conjunct2, THEN conjunct1] c2
  have d: "map_option youtube (prof_social p2) = Some None"
    by blast
  from empty [THEN conjunct1] have e1: "upsertProfile ex_profile_store ex_u1 (ex_body\<lparr>body_company := JStr []\<rparr>)
     = upsertProfile ex_profile_store ex_u1 (ex_body\<lparr>body_company := JUndefined\<rparr>)"
    by blast
  from null [THEN conjunct2, THEN conjunct2, THEN conjunct2, THEN conjunct2, THEN conjunct2, THEN conjunct1]
  have e2: "upsertProfile ex_profile_store ex_u1 (ex_body\<lparr>body_youtube := JNull\<rparr>)
     = upsertProfile ex_profile_store ex_u1 (ex_body\<lparr>body_youtube := JUndefined\<rparr>)"
    by blast
  from e1 e2 c1 k c2 d show ?thesis
    by blast
qed

end
